theory Spec2Isabelle
  imports Main "HOL-Library.Char_ord" "HOL-Library.List_Lexorder" "HOL-Library.Multiset"
begin

section \<open>JavaScript values\<close>

text \<open>
  The server (the first program of \<^verbatim>\<open>src/unnamed/part_001\<close>, lines 1--1471) is an
  Express application over one SQLite database. Request bodies, rows returned by the
  store and response bodies are JavaScript values. Numbers are the integers (the schema
  declares every numeric column INTEGER); fractional numbers and NaN are not values of
  the model. An object is the list of its own properties in insertion order.
\<close>

datatype jsval =
    JUndefined
  | JNull
  | JBool bool
  | JNum int
  | JStr string
  | JArr "jsval list"
  | JObj "(string \<times> jsval) list"

type_synonym jsobj = "(string \<times> jsval) list"

text \<open>\<^verbatim>\<open>obj[k]\<close> and \<^verbatim>\<open>obj.k\<close>: the own property, or undefined.\<close>

definition js_get :: "jsobj \<Rightarrow> string \<Rightarrow> jsval" where
  "js_get obj k = (case map_of obj k of None \<Rightarrow> JUndefined | Some v \<Rightarrow> v)"

text \<open>\<^verbatim>\<open>obj[k] = v\<close>: an existing property keeps its place, a new one goes last.\<close>

fun set_prop :: "jsobj \<Rightarrow> string \<Rightarrow> jsval \<Rightarrow> jsobj" where
  "set_prop [] k v = [(k, v)]"
| "set_prop (p # ps) k v = (if fst p = k then (k, v) # ps else p # set_prop ps k v)"

text \<open>Truthiness: what \<^verbatim>\<open>!x\<close>, \<^verbatim>\<open>x || y\<close> and \<^verbatim>\<open>if (x)\<close> test.\<close>

fun truthy :: "jsval \<Rightarrow> bool" where
  "truthy JUndefined = False"
| "truthy JNull = False"
| "truthy (JBool b) = b"
| "truthy (JNum n) = (n \<noteq> 0)"
| "truthy (JStr s) = (s \<noteq> [])"
| "truthy (JArr xs) = True"
| "truthy (JObj ps) = True"

text \<open>\<^verbatim>\<open>a || b\<close>\<close>

definition js_or :: "jsval \<Rightarrow> jsval \<Rightarrow> jsval" where
  "js_or a b = (if truthy a then a else b)"

text \<open>Decimal digits of a number, as \<^verbatim>\<open>String(n)\<close> prints an integer.\<close>

definition digit_char :: "nat \<Rightarrow> char" where
  "digit_char d = char_of (48 + d)"

function string_of_nat :: "nat \<Rightarrow> string" where
  "string_of_nat n =
     (if n < 10 then [digit_char n] else string_of_nat (n div 10) @ [digit_char (n mod 10)])"
  by pat_completeness auto
termination
  by (relation "measure (\<lambda>n. n)") auto

definition string_of_int :: "int \<Rightarrow> string" where
  "string_of_int i = (if i < 0 then CHR ''-'' # string_of_nat (nat (- i)) else string_of_nat (nat i))"

text \<open>\<^verbatim>\<open>Array.prototype.join\<close> on strings.\<close>

fun join :: "string \<Rightarrow> string list \<Rightarrow> string" where
  "join sep [] = []"
| "join sep [x] = x"
| "join sep (x # y # ys) = x @ sep @ join sep (y # ys)"

text \<open>
  \<^verbatim>\<open>String(v)\<close>, the conversion a template literal and \<^verbatim>\<open>join\<close> apply. Inside an
  array, null and undefined elements print as the empty string.
\<close>

fun js_to_string :: "jsval \<Rightarrow> string" where
  "js_to_string JUndefined = ''undefined''"
| "js_to_string JNull = ''null''"
| "js_to_string (JBool b) = (if b then ''true'' else ''false'')"
| "js_to_string (JNum n) = string_of_int n"
| "js_to_string (JStr s) = s"
| "js_to_string (JArr xs) =
     join '','' (map (\<lambda>x. if x = JUndefined \<or> x = JNull then [] else js_to_string x) xs)"
| "js_to_string (JObj ps) = ''[object Object]''"

text \<open>An optional string (a header, a query parameter): \<open>None\<close> is undefined.\<close>

definition str_truthy :: "string option \<Rightarrow> bool" where
  "str_truthy v = (case v of None \<Rightarrow> False | Some s \<Rightarrow> s \<noteq> [])"

definition startsWith :: "string \<Rightarrow> string \<Rightarrow> bool" where
  "startsWith s p = (take (length p) s = p)"

definition substring :: "string \<Rightarrow> nat \<Rightarrow> string" where
  "substring s n = drop n s"

section \<open>Responses\<close>

text \<open>
  \<^verbatim>\<open>res.status(c).json(body)\<close> is \<open>Json c body\<close> (\<^verbatim>\<open>res.json(body)\<close> has status 200);
  \<^verbatim>\<open>res.setHeader('Content-Type', t); res.setHeader('Content-Disposition', d); res.send(b)\<close>
  is \<open>Send t d b\<close>; \<open>Thrown m\<close> is an exception that leaves the handler uncaught, so that
  no response is sent.
\<close>

datatype response =
    Json nat jsval
  | Send string string string
  | Thrown string

section \<open>Access guard\<close>

text \<open>
  \<^verbatim>\<open>const ADMIN_TOKEN = process.env.ADMIN_TOKEN || 'ffc-admin-2024-secure-token-' +
  crypto.randomBytes(16).toString('hex')\<close>; the environment variable and the random hex
  string are the two arguments.
\<close>

definition ADMIN_TOKEN :: "string option \<Rightarrow> string \<Rightarrow> string" where
  "ADMIN_TOKEN env_ADMIN_TOKEN random_hex =
     (case env_ADMIN_TOKEN of
        Some t \<Rightarrow> if t \<noteq> [] then t else ''ffc-admin-2024-secure-token-'' @ random_hex
      | None \<Rightarrow> ''ffc-admin-2024-secure-token-'' @ random_hex)"

record auth_request =
  authorization :: "string option"
  x_admin_token :: "string option"
  query_token :: "string option"

datatype auth_result = Next | Reject response

text \<open>
  The local variable \<^verbatim>\<open>providedToken\<close> of \<^verbatim>\<open>authenticateAdmin\<close>: the rest of a header that
  starts with \<^verbatim>\<open>Bearer \<close>, else \<^verbatim>\<open>req.headers['x-admin-token'] || req.query.token\<close> when that
  is truthy, else null.
\<close>

definition providedToken :: "auth_request \<Rightarrow> string option" where
  "providedToken req =
     (let authHeader = authorization req;
          token = (if str_truthy (x_admin_token req) then x_admin_token req else query_token req)
      in if str_truthy authHeader \<and> startsWith (the authHeader) ''Bearer ''
         then Some (substring (the authHeader) 7)
         else if str_truthy token then token
         else None)"

definition auth_required :: response where
  "auth_required = Json 401 (JObj
     [(''error'', JStr ''Authentication required''),
      (''message'', JStr ''Access denied. Admin authentication required for this endpoint.''),
      (''hint'', JStr ''Provide token via Authorization: Bearer <token>, X-Admin-Token header, or ?token= query parameter'')])"

definition auth_invalid :: response where
  "auth_invalid = Json 401 (JObj
     [(''error'', JStr ''Invalid authentication''),
      (''message'', JStr ''Access denied. Invalid admin token provided.'')])"

definition authenticateAdmin :: "string \<Rightarrow> auth_request \<Rightarrow> auth_result" where
  "authenticateAdmin secret req =
     (if \<not> str_truthy (providedToken req) then Reject auth_required
      else if providedToken req \<noteq> Some secret then Reject auth_invalid
      else Next)"

text \<open>
  \<^verbatim>\<open>app.get(path, authenticateAdmin, handler)\<close>: the handler runs only after \<^verbatim>\<open>next()\<close>;
  a rejected request leaves the state as it is.
\<close>

definition protected :: "string \<Rightarrow> auth_request \<Rightarrow> ('s \<Rightarrow> response \<times> 's) \<Rightarrow> 's \<Rightarrow> response \<times> 's" where
  "protected secret req handler st =
     (case authenticateAdmin secret req of
        Next \<Rightarrow> handler st
      | Reject r \<Rightarrow> (r, st))"

section \<open>The Formatted transformer\<close>

definition simpleFields :: "string list" where
  "simpleFields =
     [''question1_part1'', ''question1_part2'', ''question2'', ''question3_part1'', ''question3_part2'',
      ''question4_part1'', ''question4_part2'', ''question5_part1'', ''question5_part2'', ''question6'',
      ''recipient1_name'', ''recipient1_role'', ''recipient2_name'', ''recipient2_position'',
      ''question7'', ''additional_comments'']"

definition formatQuizAnswers :: "jsobj \<Rightarrow> jsobj" where
  "formatQuizAnswers rawAnswers =
     (let participant_info = JObj
            [(''name'', js_get rawAnswers ''participant_name''),
             (''email'', js_get rawAnswers ''participant_email''),
             (''mobile'', js_get rawAnswers ''participant_mobile''),
             (''submitted_at'', js_get rawAnswers ''submitted_at'')];
          quiz_responses = foldl
            (\<lambda>responses fieldName.
               if js_get rawAnswers fieldName \<noteq> JNull \<and> js_get rawAnswers fieldName \<noteq> JUndefined
               then set_prop responses fieldName (js_get rawAnswers fieldName)
               else responses)
            [] simpleFields
      in [(''participant_info'', participant_info), (''quiz_responses'', JObj quiz_responses)])"

section \<open>The record store\<close>

text \<open>
  The two tables, typed as their \<^verbatim>\<open>CREATE TABLE\<close> statements declare them: a
  \<^verbatim>\<open>TEXT NOT NULL\<close> column is a string, a nullable \<^verbatim>\<open>TEXT\<close> column an optional
  string, an \<^verbatim>\<open>INTEGER NOT NULL\<close> column an integer. Rows are kept in insertion
  (rowid) order.
\<close>

record score =
  s_id :: int
  s_session_id :: string
  s_name :: string
  s_email :: string
  s_completion_time :: int
  s_time_string :: string
  s_difficulty :: int
  s_move_count :: int
  s_accuracy :: int
  s_completed_at :: string
  s_results_code :: string
  s_created_at :: string

record quiz_answer =
  q_id :: int
  q_session_id :: string
  q_participant_name :: string
  q_participant_email :: string
  q_participant_mobile :: string
  q_question1_part1 :: "string option"
  q_question1_part2 :: "string option"
  q_question2 :: "string option"
  q_question3_part1 :: "string option"
  q_question3_part2 :: "string option"
  q_question4_part1 :: "string option"
  q_question4_part2 :: "string option"
  q_question5_part1 :: "string option"
  q_question5_part2 :: "string option"
  q_question6 :: "string option"
  q_recipient1_name :: "string option"
  q_recipient1_role :: "string option"
  q_recipient2_name :: "string option"
  q_recipient2_position :: "string option"
  q_question7 :: "string option"
  q_additional_comments :: "string option"
  q_submitted_at :: string
  q_created_at :: string

text \<open>
  The process state: the module variables \<^verbatim>\<open>db\<close> (is the handle assigned), \<^verbatim>\<open>dbReady\<close>
  and \<^verbatim>\<open>dbError\<close> (the message of the error object, \<open>None\<close> for null), the contents of
  the two tables with their \<^verbatim>\<open>AUTOINCREMENT\<close> counters, and \<open>db_calls\<close>, which counts
  the statements handed to the store (\<^verbatim>\<open>db.run\<close>, \<^verbatim>\<open>db.all\<close>, \<^verbatim>\<open>db.get\<close>).
\<close>

record server =
  db :: bool
  dbReady :: bool
  dbError :: "string option"
  scores :: "score list"
  quiz_answers :: "quiz_answer list"
  scores_seq :: int
  quiz_seq :: int
  db_calls :: nat

text \<open>
  What a request meets outside the program: the clock, the error (if any) the store
  reports to the callback of the request's first and second statement, and six things
  that are not code of this repository: SQLite's reading of a text as an integer
  (numeric affinity, \<open>None\<close> when the text is not an integer), its \<^verbatim>\<open>LIKE\<close> operator
  (pattern, then value), its \<^verbatim>\<open>AVG\<close> aggregate, the rank by which the index it builds
  for a join lists the quiz rows of one session, JavaScript's \<^verbatim>\<open>parseInt\<close> as
  \<^verbatim>\<open>res.json\<close> prints its result (null for NaN), and the xlsx library's
  \<^verbatim>\<open>write\<close> of a one-sheet workbook (sheet name and cells; \<open>Inl\<close> is the message of a
  thrown error, \<open>Inr\<close> the buffer).
\<close>

record env =
  now_iso :: string
  now_sql :: string
  db_err :: "string option"
  db_err2 :: "string option"
  sql_integer :: "string \<Rightarrow> int option"
  sql_like :: "string \<Rightarrow> string \<Rightarrow> bool"
  sql_avg :: "int list \<Rightarrow> jsval"
  join_rank :: "quiz_answer \<Rightarrow> nat"
  parseInt :: "jsval \<Rightarrow> jsval"
  xlsx_write :: "string \<Rightarrow> jsval list list \<Rightarrow> string + string"

subsection \<open>Binding parameters and column affinity\<close>

datatype sqlval = SNull | SInt int | SText string

text \<open>
  How the driver binds a JavaScript value to a \<^verbatim>\<open>?\<close>: a string as text, a number as an
  integer, a boolean as 1 or 0, null and undefined as NULL, and any other object, an
  array included, as the fixed text \<^verbatim>\<open>[object Object]\<close>, whatever its own string
  conversion is.
\<close>

fun bind_param :: "jsval \<Rightarrow> sqlval" where
  "bind_param JUndefined = SNull"
| "bind_param JNull = SNull"
| "bind_param (JBool b) = SInt (if b then 1 else 0)"
| "bind_param (JNum n) = SInt n"
| "bind_param (JStr s) = SText s"
| "bind_param (JArr xs) = SText ''[object Object]''"
| "bind_param (JObj ps) = SText ''[object Object]''"

text \<open>TEXT affinity: an integer is kept as its decimal text. \<open>None\<close> is NULL.\<close>

fun text_affinity :: "sqlval \<Rightarrow> string option" where
  "text_affinity SNull = None"
| "text_affinity (SInt n) = Some (string_of_int n)"
| "text_affinity (SText s) = Some s"

text \<open>
  INTEGER (numeric) affinity: a text that reads as an integer becomes that integer.
  A text that does not would stay text in SQLite; the typed rows of this model cannot
  hold it, and \<open>Inl\<close> reports it. \<open>Inr None\<close> is NULL.
\<close>

fun integer_affinity :: "(string \<Rightarrow> int option) \<Rightarrow> sqlval \<Rightarrow> string + int option" where
  "integer_affinity rd SNull = Inr None"
| "integer_affinity rd (SInt n) = Inr (Some n)"
| "integer_affinity rd (SText s) =
     (case rd s of
        Some n \<Rightarrow> Inr (Some n)
      | None \<Rightarrow> Inl s)"

text \<open>
  \<^verbatim>\<open>column = ?\<close> for a TEXT column and for an INTEGER column: the column's affinity is
  applied to the bound value, and NULL equals nothing.
\<close>

definition text_eq :: "string \<Rightarrow> jsval \<Rightarrow> bool" where
  "text_eq col v = (text_affinity (bind_param v) = Some col)"

definition integer_eq :: "(string \<Rightarrow> int option) \<Rightarrow> int \<Rightarrow> jsval \<Rightarrow> bool" where
  "integer_eq rd col v = (integer_affinity rd (bind_param v) = Inr (Some col))"

text \<open>
  \<^verbatim>\<open>ORDER BY k ASC\<close> and \<^verbatim>\<open>ORDER BY k DESC\<close>. SQLite leaves the order of rows with equal
  keys open; the model keeps them in scan order (a stable sort).
\<close>

definition order_asc :: "('a \<Rightarrow> 'k::linorder) \<Rightarrow> 'a list \<Rightarrow> 'a list" where
  "order_asc k rows = sort_key k rows"

definition order_desc :: "('a \<Rightarrow> 'k::linorder) \<Rightarrow> 'a list \<Rightarrow> 'a list" where
  "order_desc k rows = rev (sort_key k (rev rows))"

text \<open>\<^verbatim>\<open>LIMIT n\<close>: a negative operand means no limit.\<close>

definition sql_limit :: "int \<Rightarrow> 'a list \<Rightarrow> 'a list" where
  "sql_limit n rows = (if n < 0 then rows else take (nat n) rows)"

text \<open>
  The operand of \<^verbatim>\<open>LIMIT ?\<close> and \<^verbatim>\<open>OFFSET ?\<close> must be an integer, or a text that reads as
  one; anything else fails the statement.
\<close>

definition limit_operand :: "(string \<Rightarrow> int option) \<Rightarrow> jsval \<Rightarrow> string + int" where
  "limit_operand rd v =
     (case integer_affinity rd (bind_param v) of
        Inr (Some n) \<Rightarrow> Inr n
      | Inr None \<Rightarrow> Inl ''SQLITE_MISMATCH: datatype mismatch''
      | Inl s \<Rightarrow> Inl ''SQLITE_MISMATCH: datatype mismatch'')"

text \<open>
  \<^verbatim>\<open>FROM scores s LEFT JOIN quiz_answers qa ON s.session_id = qa.session_id\<close>: every
  score with each quiz row of the same session, or once with no quiz row. The scores are
  scanned in table order. Several quiz rows of one session come in the order of the index
  the store builds over the quiz table for the join, which is not the program's to
  choose: the model lists them by the rank the environment gives.
\<close>

definition left_join ::
  "(quiz_answer \<Rightarrow> nat) \<Rightarrow> score list \<Rightarrow> quiz_answer list \<Rightarrow> (score \<times> quiz_answer option) list" where
  "left_join rank ss qs =
     concat (map (\<lambda>s.
       (case filter (\<lambda>qa. s_session_id s = q_session_id qa) qs of
          [] \<Rightarrow> [(s, None)]
        | ms \<Rightarrow> map (\<lambda>qa. (s, Some qa)) (sort_key rank ms))) ss)"

text \<open>The id an \<^verbatim>\<open>AUTOINCREMENT\<close> key gives the next row.\<close>

definition next_id :: "int \<Rightarrow> int list \<Rightarrow> int" where
  "next_id seq ids = fold max ids seq + 1"

subsection \<open>Rows as the driver returns them\<close>

definition opt_text :: "string option \<Rightarrow> jsval" where
  "opt_text v = (case v of None \<Rightarrow> JNull | Some s \<Rightarrow> JStr s)"

definition opt_int :: "int option \<Rightarrow> jsval" where
  "opt_int v = (case v of None \<Rightarrow> JNull | Some n \<Rightarrow> JNum n)"

text \<open>\<^verbatim>\<open>SELECT * FROM scores\<close>\<close>

definition score_row :: "score \<Rightarrow> jsobj" where
  "score_row s =
     [(''id'', JNum (s_id s)),
      (''session_id'', JStr (s_session_id s)),
      (''name'', JStr (s_name s)),
      (''email'', JStr (s_email s)),
      (''completion_time'', JNum (s_completion_time s)),
      (''time_string'', JStr (s_time_string s)),
      (''difficulty'', JNum (s_difficulty s)),
      (''move_count'', JNum (s_move_count s)),
      (''accuracy'', JNum (s_accuracy s)),
      (''completed_at'', JStr (s_completed_at s)),
      (''results_code'', JStr (s_results_code s)),
      (''created_at'', JStr (s_created_at s))]"

text \<open>The select list of the leaderboard: no results code, no creation time.\<close>

definition leaderboard_row :: "score \<Rightarrow> jsobj" where
  "leaderboard_row s =
     [(''id'', JNum (s_id s)),
      (''session_id'', JStr (s_session_id s)),
      (''name'', JStr (s_name s)),
      (''email'', JStr (s_email s)),
      (''completion_time'', JNum (s_completion_time s)),
      (''time_string'', JStr (s_time_string s)),
      (''difficulty'', JNum (s_difficulty s)),
      (''move_count'', JNum (s_move_count s)),
      (''accuracy'', JNum (s_accuracy s)),
      (''completed_at'', JStr (s_completed_at s))]"

text \<open>The sixteen answer columns of a quiz row, null for every column when there is no row.\<close>

definition answer_columns :: "quiz_answer option \<Rightarrow> jsobj" where
  "answer_columns qa =
     [(''question1_part1'', opt_text (Option.bind qa q_question1_part1)),
      (''question1_part2'', opt_text (Option.bind qa q_question1_part2)),
      (''question2'', opt_text (Option.bind qa q_question2)),
      (''question3_part1'', opt_text (Option.bind qa q_question3_part1)),
      (''question3_part2'', opt_text (Option.bind qa q_question3_part2)),
      (''question4_part1'', opt_text (Option.bind qa q_question4_part1)),
      (''question4_part2'', opt_text (Option.bind qa q_question4_part2)),
      (''question5_part1'', opt_text (Option.bind qa q_question5_part1)),
      (''question5_part2'', opt_text (Option.bind qa q_question5_part2)),
      (''question6'', opt_text (Option.bind qa q_question6)),
      (''recipient1_name'', opt_text (Option.bind qa q_recipient1_name)),
      (''recipient1_role'', opt_text (Option.bind qa q_recipient1_role)),
      (''recipient2_name'', opt_text (Option.bind qa q_recipient2_name)),
      (''recipient2_position'', opt_text (Option.bind qa q_recipient2_position)),
      (''question7'', opt_text (Option.bind qa q_question7)),
      (''additional_comments'', opt_text (Option.bind qa q_additional_comments))]"

text \<open>\<^verbatim>\<open>SELECT * FROM quiz_answers\<close>\<close>

definition quiz_row :: "quiz_answer \<Rightarrow> jsobj" where
  "quiz_row qa =
     [(''id'', JNum (q_id qa)),
      (''session_id'', JStr (q_session_id qa)),
      (''participant_name'', JStr (q_participant_name qa)),
      (''participant_email'', JStr (q_participant_email qa)),
      (''participant_mobile'', JStr (q_participant_mobile qa))]
     @ answer_columns (Some qa) @
     [(''submitted_at'', JStr (q_submitted_at qa)),
      (''created_at'', JStr (q_created_at qa))]"

text \<open>The select list of \<^verbatim>\<open>/api/leaderboard-with-quiz\<close> over a row of the join.\<close>

definition leaderboard_quiz_row :: "score \<times> quiz_answer option \<Rightarrow> jsobj" where
  "leaderboard_quiz_row r =
     (case r of (s, qa) \<Rightarrow>
        leaderboard_row s @
        [(''quiz_name'', opt_text (map_option q_participant_name qa)),
         (''quiz_email'', opt_text (map_option q_participant_email qa)),
         (''participant_mobile'', opt_text (map_option q_participant_mobile qa)),
         (''quiz_submitted_at'', opt_text (map_option q_submitted_at qa))]
        @ answer_columns qa)"

text \<open>The select list of \<^verbatim>\<open>/api/export/combined\<close> over a row of the join.\<close>

definition combined_row :: "score \<times> quiz_answer option \<Rightarrow> jsobj" where
  "combined_row r =
     (case r of (s, qa) \<Rightarrow>
        [(''score_id'', JNum (s_id s)),
         (''session_id'', JStr (s_session_id s)),
         (''puzzle_name'', JStr (s_name s)),
         (''puzzle_email'', JStr (s_email s)),
         (''completion_time'', JNum (s_completion_time s)),
         (''time_string'', JStr (s_time_string s)),
         (''difficulty'', JNum (s_difficulty s)),
         (''move_count'', JNum (s_move_count s)),
         (''accuracy'', JNum (s_accuracy s)),
         (''puzzle_completed_at'', JStr (s_completed_at s)),
         (''results_code'', JStr (s_results_code s)),
         (''quiz_id'', opt_int (map_option q_id qa)),
         (''quiz_name'', opt_text (map_option q_participant_name qa)),
         (''quiz_email'', opt_text (map_option q_participant_email qa)),
         (''participant_mobile'', opt_text (map_option q_participant_mobile qa))]
        @ answer_columns qa @
        [(''quiz_submitted_at'', opt_text (map_option q_submitted_at qa))])"

section \<open>Readiness tracker\<close>

text \<open>
  What \<^verbatim>\<open>initializeDatabase\<close> meets: an exception thrown by \<^verbatim>\<open>new sqlite3.Database\<close>,
  and the error (if any) passed to each of its five callbacks, in the order of the calls.
\<close>

record init_env =
  open_throws :: "string option"
  open_err :: "string option"
  create_scores_err :: "string option"
  create_quiz_err :: "string option"
  test_insert_err :: "string option"
  test_delete_err :: "string option"
  init_now_iso :: string
  init_now_sql :: string

text \<open>The module variables as \<^verbatim>\<open>let db; let dbReady = false; let dbError = null\<close> leave them,
  over the tables the database file holds.\<close>

definition initial_server :: "score list \<Rightarrow> quiz_answer list \<Rightarrow> int \<Rightarrow> int \<Rightarrow> server" where
  "initial_server ss qs sseq qseq =
     \<lparr>db = False, dbReady = False, dbError = None, scores = ss, quiz_answers = qs,
      scores_seq = sseq, quiz_seq = qseq, db_calls = 0\<rparr>"

definition test_record :: "int \<Rightarrow> string \<Rightarrow> string \<Rightarrow> score" where
  "test_record i completed created =
     \<lparr>s_id = i, s_session_id = ''TEST-SESSION-123'', s_name = ''Test User'',
      s_email = ''test@example.com'', s_completion_time = 60000, s_time_string = ''01:00:00'',
      s_difficulty = 8, s_move_count = 100, s_accuracy = 85, s_completed_at = completed,
      s_results_code = ''TEST-RESULT-CODE'', s_created_at = created\<rparr>"

text \<open>\<open>failed m st\<close> is \<^verbatim>\<open>dbError = err; dbReady = false; resolve(false)\<close>.\<close>

definition failed :: "string \<Rightarrow> server \<Rightarrow> bool \<times> server" where
  "failed m st = (False, st\<lparr>dbError := Some m, dbReady := False\<rparr>)"

definition called :: "server \<Rightarrow> server" where
  "called st = st\<lparr>db_calls := Suc (db_calls st)\<rparr>"

definition initializeDatabase :: "init_env \<Rightarrow> server \<Rightarrow> bool \<times> server" where
  "initializeDatabase ie st =
     (case open_throws ie of
        Some m \<Rightarrow> failed m st
      | None \<Rightarrow>
     (let st = st\<lparr>db := True\<rparr> in
      case open_err ie of
        Some m \<Rightarrow> failed m st
      | None \<Rightarrow>
     (let st = called st in
      case create_scores_err ie of
        Some m \<Rightarrow> failed m st
      | None \<Rightarrow>
     (let st = called st in
      case create_quiz_err ie of
        Some m \<Rightarrow> failed m st
      | None \<Rightarrow>
     (let st = called st in
      case test_insert_err ie of
        Some m \<Rightarrow> failed m st
      | None \<Rightarrow>
     (let lastID = next_id (scores_seq st) (map s_id (scores st));
          st = st\<lparr>scores := scores st @ [test_record lastID (init_now_iso ie) (init_now_sql ie)],
                   scores_seq := lastID\<rparr>;
          st = called st;
          st = (case test_delete_err ie of
                  Some m \<Rightarrow> st
                | None \<Rightarrow> st\<lparr>scores := filter (\<lambda>s. s_session_id s \<noteq> ''TEST-SESSION-123'') (scores st)\<rparr>)
      in (True, st\<lparr>dbReady := True, dbError := None\<rparr>)))))))"

text \<open>
  The tracker states of the specification, read off the three module variables. Ready is
  the condition under which the guard \<^verbatim>\<open>if (!db || !dbReady)\<close> lets a request through.
\<close>

datatype readiness = Uninitialized | Initializing | Ready | Failed string

definition tracker :: "server \<Rightarrow> readiness" where
  "tracker st =
     (if db st \<and> dbReady st then Ready
      else case dbError st of
             Some m \<Rightarrow> Failed m
           | None \<Rightarrow> if db st then Initializing else Uninitialized)"

text \<open>The answer of every guarded handler when \<^verbatim>\<open>!db || !dbReady\<close>.\<close>

definition db_unavailable :: "server \<Rightarrow> response" where
  "db_unavailable st = Json 503 (JObj
     [(''error'', JStr ''Database not available''),
      (''ready'', JBool (dbReady st)),
      (''dbError'', opt_text (dbError st))])"

section \<open>Validation\<close>

text \<open>
  \<^verbatim>\<open>/^[^\s@]+@[^\s@]+\.[^\s@]+$/\<close>. A regular expression of this shape is a list of
  items, a literal character or one-or-more characters of a class; \<open>rx_match\<close> tries every
  split, as backtracking does. Characters are the code units below 256, of which
  \<^verbatim>\<open>\s\<close> matches tab, line feed, vertical tab, form feed, carriage return, space and
  the no-break space.
\<close>

datatype rx = Chr char | PlusClass "char \<Rightarrow> bool"

fun rx_match :: "rx list \<Rightarrow> string \<Rightarrow> bool" where
  "rx_match [] s = (s = [])"
| "rx_match (Chr c # r) [] = False"
| "rx_match (Chr c # r) (x # xs) = (x = c \<and> rx_match r xs)"
| "rx_match (PlusClass P # r) [] = False"
| "rx_match (PlusClass P # r) (x # xs) = (P x \<and> (rx_match r xs \<or> rx_match (PlusClass P # r) xs))"

definition is_space :: "char \<Rightarrow> bool" where
  "is_space c = (of_char c \<in> {9, 10, 11, 12, 13, 32, 160 :: nat})"

definition not_space_or_at :: "char \<Rightarrow> bool" where
  "not_space_or_at c = (\<not> is_space c \<and> c \<noteq> CHR ''@'')"

definition emailRegex :: "rx list" where
  "emailRegex =
     [PlusClass not_space_or_at, Chr (CHR ''@''), PlusClass not_space_or_at, Chr (CHR ''.''),
      PlusClass not_space_or_at]"

text \<open>\<^verbatim>\<open>emailRegex.test(v)\<close> converts its argument to a string.\<close>

definition emailRegex_test :: "jsval \<Rightarrow> bool" where
  "emailRegex_test v = rx_match emailRegex (js_to_string v)"

section \<open>Writes\<close>

definition sum_bind :: "'e + 'a \<Rightarrow> ('a \<Rightarrow> 'e + 'b) \<Rightarrow> 'e + 'b" where
  "sum_bind x f = (case x of Inl m \<Rightarrow> Inl m | Inr a \<Rightarrow> f a)"

text \<open>
  A value bound to a \<^verbatim>\<open>NOT NULL\<close> column of each affinity, and to a nullable text column.
  SQLite stores a text that reads as no integer unchanged in an INTEGER column, and the
  insert succeeds. The typed rows of this model have no such row: \<open>int_col\<close> answers
  \<open>Inl\<close> there, which the handler turns into an error, so on such a payload the model
  is not the program; the properties below that let such payloads in state only what
  holds either way.
\<close>

definition text_col :: "string \<Rightarrow> jsval \<Rightarrow> string + string" where
  "text_col col v =
     (case text_affinity (bind_param v) of
        None \<Rightarrow> Inl (''SQLITE_CONSTRAINT: NOT NULL constraint failed: '' @ col)
      | Some s \<Rightarrow> Inr s)"

definition int_col :: "(string \<Rightarrow> int option) \<Rightarrow> string \<Rightarrow> jsval \<Rightarrow> string + int" where
  "int_col rd col v =
     (case integer_affinity rd (bind_param v) of
        Inr None \<Rightarrow> Inl (''SQLITE_CONSTRAINT: NOT NULL constraint failed: '' @ col)
      | Inr (Some n) \<Rightarrow> Inr n
      | Inl s \<Rightarrow> Inl (''not an integer in '' @ col))"

definition opt_col :: "jsval \<Rightarrow> string option" where
  "opt_col v = text_affinity (bind_param v)"

text \<open>
  \<^verbatim>\<open>INSERT INTO scores (session_id, ..., results_code) VALUES (?, ..., ?)\<close> with its ten
  parameters: the statement is handed to the store, which reports an error of its own,
  or a constraint the values break, or appends the row under the next id.
\<close>

definition run_insert_score ::
  "env \<Rightarrow> jsval \<Rightarrow> jsval \<Rightarrow> jsval \<Rightarrow> jsval \<Rightarrow> jsval \<Rightarrow> jsval \<Rightarrow> jsval \<Rightarrow> jsval \<Rightarrow> jsval \<Rightarrow> jsval
     \<Rightarrow> server \<Rightarrow> (string + int) \<times> server" where
  "run_insert_score e sessionId name email completionTime timeString difficulty moveCount
       accuracy completedAt resultsCode st =
     (let st = called st;
          lastID = next_id (scores_seq st) (map s_id (scores st))
      in case db_err e of
           Some m \<Rightarrow> (Inl m, st)
         | None \<Rightarrow>
          (case
             sum_bind (text_col ''scores.session_id'' sessionId) (\<lambda>c1.
             sum_bind (text_col ''scores.name'' name) (\<lambda>c2.
             sum_bind (text_col ''scores.email'' email) (\<lambda>c3.
             sum_bind (int_col (sql_integer e) ''scores.completion_time'' completionTime) (\<lambda>c4.
             sum_bind (text_col ''scores.time_string'' timeString) (\<lambda>c5.
             sum_bind (int_col (sql_integer e) ''scores.difficulty'' difficulty) (\<lambda>c6.
             sum_bind (int_col (sql_integer e) ''scores.move_count'' moveCount) (\<lambda>c7.
             sum_bind (int_col (sql_integer e) ''scores.accuracy'' accuracy) (\<lambda>c8.
             sum_bind (text_col ''scores.completed_at'' completedAt) (\<lambda>c9.
             sum_bind (text_col ''scores.results_code'' resultsCode) (\<lambda>c10.
               Inr \<lparr>s_id = lastID, s_session_id = c1, s_name = c2, s_email = c3,
                    s_completion_time = c4, s_time_string = c5, s_difficulty = c6,
                    s_move_count = c7, s_accuracy = c8, s_completed_at = c9,
                    s_results_code = c10, s_created_at = now_sql e\<rparr>))))))))))
           of
             Inl m \<Rightarrow> (Inl m, st)
           | Inr row \<Rightarrow> (Inr lastID, st\<lparr>scores := scores st @ [row], scores_seq := lastID\<rparr>)))"

definition scores_required :: jsval where
  "scores_required = JArr
     [JStr ''sessionId'', JStr ''name'', JStr ''email'', JStr ''completionTime'', JStr ''timeString'',
      JStr ''difficulty'', JStr ''moveCount'', JStr ''accuracy'', JStr ''completedAt'',
      JStr ''resultsCode'']"

text \<open>\<^verbatim>\<open>app.post('/api/scores', ...)\<close>\<close>

definition post_scores :: "env \<Rightarrow> jsobj \<Rightarrow> server \<Rightarrow> response \<times> server" where
  "post_scores e body st =
     (if \<not> db st \<or> \<not> dbReady st then (db_unavailable st, st)
      else
       (let sessionId = js_get body ''sessionId'';
            name = js_get body ''name'';
            email = js_get body ''email'';
            completionTime = js_get body ''completionTime'';
            timeString = js_get body ''timeString'';
            difficulty = js_get body ''difficulty'';
            moveCount = js_get body ''moveCount'';
            accuracy = js_get body ''accuracy'';
            completedAt = js_get body ''completedAt'';
            resultsCode = js_get body ''resultsCode''
        in
         if \<not> truthy sessionId \<or> \<not> truthy name \<or> \<not> truthy email \<or> \<not> truthy completionTime
            \<or> \<not> truthy timeString \<or> \<not> truthy difficulty \<or> \<not> truthy moveCount
            \<or> accuracy = JUndefined \<or> \<not> truthy completedAt \<or> \<not> truthy resultsCode
         then (Json 400 (JObj
                 [(''error'', JStr ''Missing required fields''),
                  (''required'', scores_required),
                  (''received'', JObj body)]), st)
         else if \<not> emailRegex_test email
         then (Json 400 (JObj [(''error'', JStr ''Invalid email format'')]), st)
         else
          (case run_insert_score e sessionId name email completionTime timeString difficulty
                  moveCount accuracy completedAt resultsCode st of
             (Inl m, st') \<Rightarrow>
               (Json 500 (JObj [(''error'', JStr ''Failed to save score''), (''details'', JStr m)]), st')
           | (Inr lastID, st') \<Rightarrow>
               (Json 200 (JObj
                  [(''id'', JNum lastID),
                   (''message'', JStr ''Score saved successfully''),
                   (''sessionId'', sessionId)]), st'))))"

text \<open>
  \<^verbatim>\<open>INSERT INTO quiz_answers (...) VALUES (?, ..., ?)\<close> with its twenty-one parameters,
  in the order of the array of the source.
\<close>

definition run_insert_quiz :: "env \<Rightarrow> jsval list \<Rightarrow> server \<Rightarrow> (string + int) \<times> server" where
  "run_insert_quiz e params st =
     (let st = called st;
          lastID = next_id (quiz_seq st) (map q_id (quiz_answers st));
          p = (\<lambda>i. if i < length params then params ! i else JUndefined)
      in case db_err e of
           Some m \<Rightarrow> (Inl m, st)
         | None \<Rightarrow>
          (case
             sum_bind (text_col ''quiz_answers.session_id'' (p 0)) (\<lambda>c1.
             sum_bind (text_col ''quiz_answers.participant_name'' (p 1)) (\<lambda>c2.
             sum_bind (text_col ''quiz_answers.participant_email'' (p 2)) (\<lambda>c3.
             sum_bind (text_col ''quiz_answers.participant_mobile'' (p 3)) (\<lambda>c4.
             sum_bind (text_col ''quiz_answers.submitted_at'' (p 20)) (\<lambda>c21.
               Inr \<lparr>q_id = lastID, q_session_id = c1, q_participant_name = c2,
                    q_participant_email = c3, q_participant_mobile = c4,
                    q_question1_part1 = opt_col (p 4), q_question1_part2 = opt_col (p 5),
                    q_question2 = opt_col (p 6), q_question3_part1 = opt_col (p 7),
                    q_question3_part2 = opt_col (p 8), q_question4_part1 = opt_col (p 9),
                    q_question4_part2 = opt_col (p 10), q_question5_part1 = opt_col (p 11),
                    q_question5_part2 = opt_col (p 12), q_question6 = opt_col (p 13),
                    q_recipient1_name = opt_col (p 14), q_recipient1_role = opt_col (p 15),
                    q_recipient2_name = opt_col (p 16), q_recipient2_position = opt_col (p 17),
                    q_question7 = opt_col (p 18), q_additional_comments = opt_col (p 19),
                    q_submitted_at = c21, q_created_at = now_sql e\<rparr>)))))
           of
             Inl m \<Rightarrow> (Inl m, st)
           | Inr row \<Rightarrow>
               (Inr lastID, st\<lparr>quiz_answers := quiz_answers st @ [row], quiz_seq := lastID\<rparr>)))"

definition quiz_required :: jsval where
  "quiz_required = JArr
     [JStr ''sessionId'', JStr ''participantName'', JStr ''participantEmail'',
      JStr ''participantMobile'', JStr ''submittedAt'']"

text \<open>\<^verbatim>\<open>app.post('/api/quiz-answers', ...)\<close>\<close>

definition post_quiz_answers :: "env \<Rightarrow> jsobj \<Rightarrow> server \<Rightarrow> response \<times> server" where
  "post_quiz_answers e body st =
     (if \<not> db st \<or> \<not> dbReady st then (db_unavailable st, st)
      else
       (let sessionId = js_get body ''sessionId'';
            participantName = js_get body ''participantName'';
            participantEmail = js_get body ''participantEmail'';
            participantMobile = js_get body ''participantMobile'';
            submittedAt = js_get body ''submittedAt''
        in
         if \<not> truthy sessionId \<or> \<not> truthy participantName \<or> \<not> truthy participantEmail
            \<or> \<not> truthy participantMobile \<or> \<not> truthy submittedAt
         then (Json 400 (JObj
                 [(''error'', JStr ''Missing required fields''),
                  (''required'', quiz_required),
                  (''received'', JObj body)]), st)
         else if \<not> emailRegex_test participantEmail
         then (Json 400 (JObj [(''error'', JStr ''Invalid email format'')]), st)
         else
          (case run_insert_quiz e
                  ([sessionId, participantName, participantEmail, participantMobile]
                   @ map (js_get body)
                      [''question1Part1'', ''question1Part2'', ''question2'', ''question3Part1'',
                       ''question3Part2'', ''question4Part1'', ''question4Part2'', ''question5Part1'',
                       ''question5Part2'', ''question6'', ''recipient1Name'', ''recipient1Role'',
                       ''recipient2Name'', ''recipient2Position'', ''question7'', ''additionalComments'']
                   @ [submittedAt]) st of
             (Inl m, st') \<Rightarrow>
               (Json 500 (JObj [(''error'', JStr ''Failed to save quiz answers''), (''details'', JStr m)]), st')
           | (Inr lastID, st') \<Rightarrow>
               (Json 200 (JObj
                  [(''id'', JNum lastID),
                   (''message'', JStr ''Quiz answers saved successfully''),
                   (''sessionId'', sessionId)]), st'))))"

section \<open>Duplicate detector\<close>

text \<open>\<^verbatim>\<open>SELECT COUNT(*) as count FROM quiz_answers WHERE participant_email = ? OR participant_name = ?\<close>\<close>

definition count_duplicate_quiz :: "jsval \<Rightarrow> jsval \<Rightarrow> quiz_answer list \<Rightarrow> int" where
  "count_duplicate_quiz participantEmail participantName qs =
     int (length (filter
       (\<lambda>qa. text_eq (q_participant_email qa) participantEmail
             \<or> text_eq (q_participant_name qa) participantName) qs))"

text \<open>\<^verbatim>\<open>app.post('/api/quiz-answers/check-duplicate', ...)\<close>\<close>

definition post_check_duplicate :: "env \<Rightarrow> jsobj \<Rightarrow> server \<Rightarrow> response \<times> server" where
  "post_check_duplicate e body st =
     (if \<not> db st \<or> \<not> dbReady st then (db_unavailable st, st)
      else
       (let participantEmail = js_get body ''participantEmail'';
            participantName = js_get body ''participantName''
        in
         if \<not> truthy participantEmail \<or> \<not> truthy participantName
         then (Json 400 (JObj
                 [(''error'', JStr ''Missing required fields''),
                  (''required'', JArr [JStr ''participantEmail'', JStr ''participantName'']),
                  (''received'', JObj body)]), st)
         else
          (case db_err e of
             Some m \<Rightarrow>
               (Json 500 (JObj
                  [(''error'', JStr ''Failed to check for duplicates''), (''details'', JStr m)]),
                called st)
           | None \<Rightarrow>
              (let existingCount = count_duplicate_quiz participantEmail participantName (quiz_answers st);
                   isDuplicate = (existingCount > 0)
               in (Json 200 (JObj
                     [(''isDuplicate'', JBool isDuplicate),
                      (''existingCount'', JNum existingCount),
                      (''message'', JStr (if isDuplicate
                          then ''Entry already exists for this email or name''
                          else ''No duplicate found''))]),
                   called st)))))"

text \<open>\<^verbatim>\<open>app.post('/api/check-duplicate-email', ...)\<close>\<close>

definition post_check_duplicate_email :: "env \<Rightarrow> jsobj \<Rightarrow> server \<Rightarrow> response \<times> server" where
  "post_check_duplicate_email e body st =
     (if \<not> db st \<or> \<not> dbReady st then (db_unavailable st, st)
      else
       (let email = js_get body ''email''
        in
         if \<not> truthy email
         then (Json 400 (JObj
                 [(''error'', JStr ''Missing required field''),
                  (''required'', JArr [JStr ''email'']),
                  (''received'', JObj body)]), st)
         else
          (case db_err e of
             Some m \<Rightarrow>
               (Json 500 (JObj
                  [(''error'', JStr ''Failed to check for duplicate email''), (''details'', JStr m)]),
                called st)
           | None \<Rightarrow>
              (let scores_count = int (length (filter (\<lambda>s. text_eq (s_email s) email) (scores st)));
                   quiz_count = int (length (filter (\<lambda>qa. text_eq (q_participant_email qa) email)
                                               (quiz_answers st)));
                   totalCount = scores_count + quiz_count;
                   isDuplicate = (totalCount > 0)
               in (Json 200 (JObj
                     [(''isDuplicate'', JBool isDuplicate),
                      (''scoresCount'', JNum scores_count),
                      (''quizCount'', JNum quiz_count),
                      (''totalCount'', JNum totalCount),
                      (''message'', JStr (if isDuplicate
                          then ''Email already exists in the system''
                          else ''No duplicate email found''))]),
                   called st)))))"

section \<open>Leaderboards and the join\<close>

record query_params =
  query_limit :: "string option"
  query_offset :: "string option"
  query_difficulty :: "string option"
  query_format :: "string option"
  query_search :: "string option"

text \<open>\<^verbatim>\<open>req.query.k || d\<close>: the parameter's text, or the default.\<close>

definition query_or :: "string option \<Rightarrow> jsval \<Rightarrow> jsval" where
  "query_or v d = (if str_truthy v then JStr (the v) else d)"

text \<open>\<^verbatim>\<open>if (difficulty) sql += ' WHERE difficulty = ?'\<close>\<close>

definition difficulty_matches :: "env \<Rightarrow> string option \<Rightarrow> score \<Rightarrow> bool" where
  "difficulty_matches e difficulty s =
     (if str_truthy difficulty
      then integer_eq (sql_integer e) (s_difficulty s) (JStr (the difficulty))
      else True)"

text \<open>\<^verbatim>\<open>SELECT ... FROM scores [WHERE difficulty = ?] ORDER BY completion_time ASC LIMIT ?\<close>\<close>

definition select_leaderboard :: "env \<Rightarrow> string option \<Rightarrow> jsval \<Rightarrow> server \<Rightarrow> string + score list" where
  "select_leaderboard e difficulty limit st =
     (case db_err e of
        Some m \<Rightarrow> Inl m
      | None \<Rightarrow>
         (case limit_operand (sql_integer e) limit of
            Inl m \<Rightarrow> Inl m
          | Inr n \<Rightarrow>
              Inr (sql_limit n (order_asc s_completion_time
                     (filter (difficulty_matches e difficulty) (scores st))))))"

text \<open>\<^verbatim>\<open>app.get('/api/leaderboard', authenticateAdmin, ...)\<close>\<close>

definition get_leaderboard :: "env \<Rightarrow> query_params \<Rightarrow> server \<Rightarrow> response \<times> server" where
  "get_leaderboard e q st =
     (if \<not> db st \<or> \<not> dbReady st then (db_unavailable st, st)
      else
       (let limit = query_or (query_limit q) (JNum 10);
            difficulty = query_difficulty q
        in case select_leaderboard e difficulty limit st of
             Inl m \<Rightarrow> (Json 500 (JObj [(''error'', JStr ''Failed to fetch leaderboard'')]), called st)
           | Inr rows \<Rightarrow> (Json 200 (JArr (map (\<lambda>s. JObj (leaderboard_row s)) rows)), called st)))"

text \<open>
  \<^verbatim>\<open>SELECT ... FROM scores s LEFT JOIN quiz_answers qa ON s.session_id = qa.session_id
  [WHERE s.difficulty = ?] ORDER BY s.completion_time ASC LIMIT ?\<close>
\<close>

definition select_leaderboard_with_quiz ::
  "env \<Rightarrow> string option \<Rightarrow> jsval \<Rightarrow> server \<Rightarrow> string + (score \<times> quiz_answer option) list" where
  "select_leaderboard_with_quiz e difficulty limit st =
     (case db_err e of
        Some m \<Rightarrow> Inl m
      | None \<Rightarrow>
         (case limit_operand (sql_integer e) limit of
            Inl m \<Rightarrow> Inl m
          | Inr n \<Rightarrow>
              Inr (sql_limit n (order_asc (\<lambda>r. s_completion_time (fst r))
                     (filter (\<lambda>r. difficulty_matches e difficulty (fst r))
                        (left_join (join_rank e) (scores st) (quiz_answers st)))))))"

text \<open>The body of \<^verbatim>\<open>rows.map(row => ...)\<close> in \<^verbatim>\<open>/api/leaderboard-with-quiz\<close>.\<close>

definition format_leaderboard_quiz :: "jsobj \<Rightarrow> jsval" where
  "format_leaderboard_quiz row =
     (let result =
            [(''puzzle_game'', JObj
               (map (\<lambda>k. (k, js_get row k))
                  [''id'', ''session_id'', ''name'', ''email'', ''completion_time'', ''time_string'',
                   ''difficulty'', ''move_count'', ''accuracy'', ''completed_at'']))]
      in if truthy (js_get row ''quiz_name'')
         then
          (let quizData =
                 [(''participant_name'', js_get row ''quiz_name''),
                  (''participant_email'', js_get row ''quiz_email''),
                  (''participant_mobile'', js_get row ''participant_mobile''),
                  (''submitted_at'', js_get row ''quiz_submitted_at'')]
                 @ map (\<lambda>k. (k, js_get row k)) simpleFields
           in JObj (set_prop result ''quiz_answers'' (JObj (formatQuizAnswers quizData))))
         else JObj (set_prop result ''quiz_answers'' JNull))"

text \<open>\<^verbatim>\<open>app.get('/api/leaderboard-with-quiz', authenticateAdmin, ...)\<close>\<close>

definition get_leaderboard_with_quiz :: "env \<Rightarrow> query_params \<Rightarrow> server \<Rightarrow> response \<times> server" where
  "get_leaderboard_with_quiz e q st =
     (if \<not> db st \<or> \<not> dbReady st then (db_unavailable st, st)
      else
       (let limit = query_or (query_limit q) (JNum 10);
            difficulty = query_difficulty q;
            format = query_or (query_format q) (JStr ''formatted'')
        in case select_leaderboard_with_quiz e difficulty limit st of
             Inl m \<Rightarrow>
               (Json 500 (JObj [(''error'', JStr ''Failed to fetch combined leaderboard'')]), called st)
           | Inr joined \<Rightarrow>
              (let rows = map leaderboard_quiz_row joined
               in if format = JStr ''raw''
                  then (Json 200 (JArr (map JObj rows)), called st)
                  else (Json 200 (JArr (map format_leaderboard_quiz rows)), called st))))"

section \<open>Exports\<close>

definition count_of :: "'a list \<Rightarrow> jsval" where
  "count_of rows = JNum (int (length rows))"

text \<open>\<^verbatim>\<open>app.get('/api/scores/export', authenticateAdmin, ...)\<close>\<close>

definition get_scores_export :: "env \<Rightarrow> server \<Rightarrow> response \<times> server" where
  "get_scores_export e st =
     (if \<not> db st \<or> \<not> dbReady st then (db_unavailable st, st)
      else
       (case db_err e of
          Some m \<Rightarrow> (Json 500 (JObj [(''error'', JStr ''Failed to export scores'')]), called st)
        | None \<Rightarrow>
           (let rows = map score_row (order_desc s_completed_at (scores st))
            in (Json 200 (JObj
                  [(''total'', count_of rows),
                   (''exported_at'', JStr (now_iso e)),
                   (''scores'', JArr (map JObj rows))]), called st))))"

text \<open>
  \<^verbatim>\<open>const formatted = formatQuizAnswers(row); formatted.id = row.id;
  formatted.session_id = row.session_id; formatted.created_at = row.created_at\<close>
\<close>

definition formatted_quiz_row :: "jsobj \<Rightarrow> jsobj" where
  "formatted_quiz_row row =
     (let formatted = formatQuizAnswers row;
          formatted = set_prop formatted ''id'' (js_get row ''id'');
          formatted = set_prop formatted ''session_id'' (js_get row ''session_id'');
          formatted = set_prop formatted ''created_at'' (js_get row ''created_at'')
      in formatted)"

text \<open>\<^verbatim>\<open>app.get('/api/quiz-answers/export', authenticateAdmin, ...)\<close>\<close>

definition get_quiz_export :: "env \<Rightarrow> query_params \<Rightarrow> server \<Rightarrow> response \<times> server" where
  "get_quiz_export e q st =
     (if \<not> db st \<or> \<not> dbReady st then (db_unavailable st, st)
      else
       (let format = query_or (query_format q) (JStr ''formatted'')
        in case db_err e of
             Some m \<Rightarrow> (Json 500 (JObj [(''error'', JStr ''Failed to export quiz answers'')]), called st)
           | None \<Rightarrow>
              (let rows = map quiz_row (order_desc q_submitted_at (quiz_answers st))
               in if format = JStr ''raw''
                  then (Json 200 (JObj
                          [(''total'', count_of rows),
                           (''exported_at'', JStr (now_iso e)),
                           (''format'', JStr ''raw''),
                           (''quiz_answers'', JArr (map JObj rows))]), called st)
                  else (Json 200 (JObj
                          [(''total'', count_of rows),
                           (''exported_at'', JStr (now_iso e)),
                           (''format'', JStr ''formatted''),
                           (''quiz_answers'', JArr (map (\<lambda>row. JObj (formatted_quiz_row row)) rows))]),
                        called st))))"

text \<open>
  \<^verbatim>\<open>SELECT * FROM quiz_answers [WHERE participant_name LIKE ? OR participant_email LIKE ?]\<close>,
  the rows both statements of \<^verbatim>\<open>/api/quiz-answers/formatted\<close> range over.
\<close>

definition search_quiz :: "env \<Rightarrow> string option \<Rightarrow> quiz_answer list \<Rightarrow> quiz_answer list" where
  "search_quiz e search qs =
     (if str_truthy search
      then (let searchParam = ''%'' @ the search @ ''%''
            in filter (\<lambda>qa. sql_like e searchParam (q_participant_name qa)
                           \<or> sql_like e searchParam (q_participant_email qa)) qs)
      else qs)"

text \<open>\<^verbatim>\<open>... ORDER BY submitted_at DESC LIMIT ? OFFSET ?\<close>; a negative offset skips nothing.\<close>

definition select_quiz_page :: "env \<Rightarrow> string option \<Rightarrow> jsval \<Rightarrow> jsval \<Rightarrow> server \<Rightarrow> string + quiz_answer list" where
  "select_quiz_page e search limit offset st =
     (case db_err e of
        Some m \<Rightarrow> Inl m
      | None \<Rightarrow>
         (case limit_operand (sql_integer e) limit of
            Inl m \<Rightarrow> Inl m
          | Inr n \<Rightarrow>
             (case limit_operand (sql_integer e) offset of
                Inl m \<Rightarrow> Inl m
              | Inr k \<Rightarrow>
                  Inr (sql_limit n (drop (nat k)
                         (order_desc q_submitted_at (search_quiz e search (quiz_answers st))))))))"

text \<open>\<^verbatim>\<open>(parseInt(offset) + formattedAnswers.length) < countRow.total\<close>, false when the sum is NaN.\<close>

definition has_more :: "jsval \<Rightarrow> int \<Rightarrow> int \<Rightarrow> bool" where
  "has_more parsed_offset returned counted =
     (case parsed_offset of JNum k \<Rightarrow> k + returned < counted | _ \<Rightarrow> False)"

text \<open>\<^verbatim>\<open>app.get('/api/quiz-answers/formatted', authenticateAdmin, ...)\<close>\<close>

definition get_quiz_formatted :: "env \<Rightarrow> query_params \<Rightarrow> server \<Rightarrow> response \<times> server" where
  "get_quiz_formatted e q st =
     (if \<not> db st \<or> \<not> dbReady st then (db_unavailable st, st)
      else
       (let limit = query_or (query_limit q) (JNum 50);
            offset = query_or (query_offset q) (JNum 0);
            search = query_search q
        in case select_quiz_page e search limit offset st of
             Inl m \<Rightarrow>
               (Json 500 (JObj [(''error'', JStr ''Failed to fetch formatted quiz answers'')]), called st)
           | Inr page \<Rightarrow>
              (let formattedAnswers = map (\<lambda>qa. formatted_quiz_row (quiz_row qa)) page;
                   returned = int (length formattedAnswers)
               in case db_err2 e of
                    Some m \<Rightarrow>
                      (Json 200 (JObj
                         [(''quiz_answers'', JArr (map JObj formattedAnswers)),
                          (''pagination'', JObj
                             [(''limit'', parseInt e limit),
                              (''offset'', parseInt e offset),
                              (''returned'', JNum returned)]),
                          (''retrieved_at'', JStr (now_iso e))]), called (called st))
                  | None \<Rightarrow>
                     (let countRow = int (length (search_quiz e search (quiz_answers st)))
                      in (Json 200 (JObj
                            [(''quiz_answers'', JArr (map JObj formattedAnswers)),
                             (''pagination'', JObj
                                [(''limit'', parseInt e limit),
                                 (''offset'', parseInt e offset),
                                 (''total'', JNum countRow),
                                 (''returned'', JNum returned),
                                 (''has_more'', JBool (has_more (parseInt e offset) returned countRow))]),
                             (''retrieved_at'', JStr (now_iso e))]), called (called st))))))"

subsection \<open>Delimited text\<close>

text \<open>\<^verbatim>\<open>new Date().toISOString().replace(/[:.]/g, '-').slice(0, 19)\<close>\<close>

definition file_timestamp :: "env \<Rightarrow> string" where
  "file_timestamp e =
     take 19 (map (\<lambda>c. if c = CHR '':'' \<or> c = CHR ''.'' then CHR ''-'' else c) (now_iso e))"

definition dquote :: char where
  "dquote = CHR 0x22"

definition newline :: char where
  "newline = CHR 0x0A"

text \<open>\<^verbatim>\<open>s.replace(/"/g, '""')\<close>\<close>

definition escape_quotes :: "string \<Rightarrow> string" where
  "escape_quotes s = concat (map (\<lambda>c. if c = dquote then [dquote, dquote] else [c]) s)"

text \<open>The template \<^verbatim>\<open>`"${v || ''}"`\<close>.\<close>

definition quoted :: "jsval \<Rightarrow> jsval option" where
  "quoted v = Some (JStr ([dquote] @ js_to_string (js_or v (JStr [])) @ [dquote]))"

text \<open>
  The template \<^verbatim>\<open>`"${(v || '').replace(/"/g, '""')}"`\<close>. Only a string has a
  \<^verbatim>\<open>replace\<close> method: on any other truthy value the call throws a TypeError (\<open>None\<close>).
\<close>

definition quoted_escaped :: "jsval \<Rightarrow> jsval option" where
  "quoted_escaped v =
     (case js_or v (JStr []) of
        JStr s \<Rightarrow> Some (JStr ([dquote] @ escape_quotes s @ [dquote]))
      | _ \<Rightarrow> None)"

text \<open>
  \<^verbatim>\<open>rows.forEach(row => { const csvRow = [...]; csvContent += csvRow.join(',') + '\n' })\<close>:
  \<open>csvRow\<close> builds the array, or throws.
\<close>

fun csv_lines :: "(jsobj \<Rightarrow> jsval list option) \<Rightarrow> jsobj list \<Rightarrow> string \<Rightarrow> string option" where
  "csv_lines csvRow [] csvContent = Some csvContent"
| "csv_lines csvRow (row # rows) csvContent =
     (case csvRow row of
        None \<Rightarrow> None
      | Some cells \<Rightarrow> csv_lines csvRow rows (csvContent @ js_to_string (JArr cells) @ [newline]))"

definition quiz_headers :: "string list" where
  "quiz_headers =
     [''ID'', ''Session ID'', ''Participant Name'', ''Participant Email'', ''Participant Mobile'',
      ''Question 1 Part 1'', ''Question 1 Part 2'', ''Question 2'',
      ''Question 3 Part 1'', ''Question 3 Part 2'', ''Question 4 Part 1'', ''Question 4 Part 2'',
      ''Question 5 Part 1'', ''Question 5 Part 2'', ''Question 6'',
      ''Recipient 1 Name'', ''Recipient 1 Role'', ''Recipient 2 Name'', ''Recipient 2 Position'',
      ''Question 7'', ''Additional Comments'', ''Submitted At'', ''Created At'']"

definition quiz_csvRow :: "jsobj \<Rightarrow> jsval list option" where
  "quiz_csvRow row = those
     ([Some (js_get row ''id''),
       quoted (js_get row ''session_id''),
       quoted_escaped (js_get row ''participant_name''),
       quoted (js_get row ''participant_email''),
       quoted (js_get row ''participant_mobile'')]
      @ map (\<lambda>k. quoted_escaped (js_get row k)) simpleFields @
      [quoted (js_get row ''submitted_at''),
       quoted (js_get row ''created_at'')])"

text \<open>\<^verbatim>\<open>app.get('/api/quiz-answers/csv', authenticateAdmin, ...)\<close>\<close>

definition get_quiz_csv :: "env \<Rightarrow> server \<Rightarrow> response \<times> server" where
  "get_quiz_csv e st =
     (if \<not> db st \<or> \<not> dbReady st then (db_unavailable st, st)
      else
       (case db_err e of
          Some m \<Rightarrow>
            (Json 500 (JObj [(''error'', JStr ''Failed to export quiz answers to CSV'')]), called st)
        | None \<Rightarrow>
           (let rows = map quiz_row (order_desc q_submitted_at (quiz_answers st))
            in case csv_lines quiz_csvRow rows (join '','' quiz_headers @ [newline]) of
                 None \<Rightarrow> (Thrown ''TypeError'', called st)
               | Some csvContent \<Rightarrow>
                   (Send ''text/csv''
                      (''attachment; filename='' @ [dquote] @ ''quiz-answers-'' @ file_timestamp e
                         @ ''.csv'' @ [dquote])
                      csvContent, called st))))"

subsection \<open>Spreadsheet\<close>

text \<open>
  \<^verbatim>\<open>xlsx.utils.json_to_sheet\<close>, a function of the xlsx library and not of this
  repository, as the library documents it: the header is the keys of the objects in the
  order they first appear, row 0 holds the header cells, and each object fills one
  further row. A sheet is the list of its rows of cells.
\<close>

definition sheet_header :: "jsobj list \<Rightarrow> string list" where
  "sheet_header js = fold (\<lambda>k hdr. if k \<in> set hdr then hdr else hdr @ [k]) (concat (map (map fst) js)) []"

definition json_to_sheet :: "jsobj list \<Rightarrow> jsval list list" where
  "json_to_sheet js =
     (let hdr = sheet_header js
      in map JStr hdr # map (\<lambda>obj. map (js_get obj) hdr) js)"

definition quiz_excel_row :: "jsobj \<Rightarrow> jsobj" where
  "quiz_excel_row row =
     map (\<lambda>(label, k). (label, js_get row k))
       (zip quiz_headers
          ([''id'', ''session_id'', ''participant_name'', ''participant_email'', ''participant_mobile'']
           @ simpleFields @ [''submitted_at'', ''created_at'']))"

definition xlsx_type :: string where
  "xlsx_type = ''application/vnd.openxmlformats-officedocument.spreadsheetml.sheet''"

text \<open>\<^verbatim>\<open>app.get('/api/quiz-answers/xlsx', authenticateAdmin, ...)\<close>\<close>

definition get_quiz_xlsx :: "env \<Rightarrow> server \<Rightarrow> response \<times> server" where
  "get_quiz_xlsx e st =
     (if \<not> db st \<or> \<not> dbReady st then (db_unavailable st, st)
      else
       (case db_err e of
          Some m \<Rightarrow>
            (Json 500 (JObj [(''error'', JStr ''Failed to export quiz answers to Excel'')]), called st)
        | None \<Rightarrow>
           (let rows = map quiz_row (order_desc q_submitted_at (quiz_answers st));
                excelData = map quiz_excel_row rows;
                worksheet = json_to_sheet excelData
            in case xlsx_write e ''Quiz Answers'' worksheet of
                 Inl m \<Rightarrow>
                   (Json 500 (JObj
                      [(''error'', JStr ''Failed to create Excel file''), (''details'', JStr m)]),
                    called st)
               | Inr excelBuffer \<Rightarrow>
                   (Send xlsx_type
                      (''attachment; filename='' @ [dquote] @ ''quiz-answers-'' @ file_timestamp e
                         @ ''.xlsx'' @ [dquote])
                      excelBuffer, called st))))"

subsection \<open>Combined export\<close>

definition combined_headers :: "string list" where
  "combined_headers =
     [''Score ID'', ''Session ID'', ''Puzzle Name'', ''Puzzle Email'', ''Completion Time (ms)'',
      ''Time String'', ''Difficulty'', ''Move Count'', ''Accuracy'', ''Puzzle Completed At'',
      ''Results Code'', ''Quiz ID'', ''Quiz Name'', ''Quiz Email'', ''Mobile'',
      ''Question 1 Part 1'', ''Question 1 Part 2'', ''Question 2'',
      ''Question 3 Part 1'', ''Question 3 Part 2'', ''Question 4 Part 1'', ''Question 4 Part 2'',
      ''Question 5 Part 1'', ''Question 5 Part 2'', ''Question 6'',
      ''Recipient 1 Name'', ''Recipient 1 Role'', ''Recipient 2 Name'', ''Recipient 2 Position'',
      ''Question 7'', ''Additional Comments'', ''Quiz Submitted At'']"

text \<open>The array \<^verbatim>\<open>csvRow\<close> of \<^verbatim>\<open>/api/export/combined\<close>; \<^verbatim>\<open>row.k || ''\<close> is \<open>js_or\<close>.\<close>

definition combined_csvRow :: "jsobj \<Rightarrow> jsval list option" where
  "combined_csvRow row = those
     ([Some (js_or (js_get row ''score_id'') (JStr [])),
       quoted (js_get row ''session_id''),
       quoted_escaped (js_get row ''puzzle_name''),
       quoted (js_get row ''puzzle_email''),
       Some (js_or (js_get row ''completion_time'') (JStr [])),
       quoted (js_get row ''time_string''),
       Some (js_or (js_get row ''difficulty'') (JStr [])),
       Some (js_or (js_get row ''move_count'') (JStr [])),
       Some (js_or (js_get row ''accuracy'') (JStr [])),
       quoted (js_get row ''puzzle_completed_at''),
       quoted (js_get row ''results_code''),
       Some (js_or (js_get row ''quiz_id'') (JStr [])),
       quoted_escaped (js_get row ''quiz_name''),
       quoted (js_get row ''quiz_email''),
       quoted (js_get row ''participant_mobile'')]
      @ map (\<lambda>k. quoted_escaped (js_get row k)) simpleFields @
      [quoted (js_get row ''quiz_submitted_at'')])"

definition combined_excel_row :: "jsobj \<Rightarrow> jsobj" where
  "combined_excel_row row =
     map (\<lambda>(label, k). (label, js_get row k))
       (zip combined_headers
          ([''score_id'', ''session_id'', ''puzzle_name'', ''puzzle_email'', ''completion_time'',
            ''time_string'', ''difficulty'', ''move_count'', ''accuracy'', ''puzzle_completed_at'',
            ''results_code'', ''quiz_id'', ''quiz_name'', ''quiz_email'', ''participant_mobile'']
           @ simpleFields @ [''quiz_submitted_at'']))"

text \<open>\<^verbatim>\<open>app.get('/api/export/combined', authenticateAdmin, ...)\<close>\<close>

definition get_export_combined :: "env \<Rightarrow> query_params \<Rightarrow> server \<Rightarrow> response \<times> server" where
  "get_export_combined e q st =
     (if \<not> db st \<or> \<not> dbReady st then (db_unavailable st, st)
      else
       (let format = query_or (query_format q) (JStr ''xlsx'')
        in case db_err e of
             Some m \<Rightarrow> (Json 500 (JObj [(''error'', JStr ''Failed to export combined data'')]), called st)
           | None \<Rightarrow>
              (let rows = map combined_row
                            (order_desc (\<lambda>r. s_completed_at (fst r))
                               (left_join (join_rank e) (scores st) (quiz_answers st)))
               in if format = JStr ''csv''
                  then
                   (case csv_lines combined_csvRow rows (join '','' combined_headers @ [newline]) of
                      None \<Rightarrow>
                        (Json 500 (JObj
                           [(''error'', JStr ''Failed to create export file''),
                            (''details'', JStr ''TypeError'')]), called st)
                    | Some csvContent \<Rightarrow>
                        (Send ''text/csv''
                           (''attachment; filename='' @ [dquote] @ ''combined-export-''
                              @ file_timestamp e @ ''.csv'' @ [dquote])
                           csvContent, called st))
                  else
                   (case xlsx_write e ''Combined Export'' (json_to_sheet (map combined_excel_row rows)) of
                      Inl m \<Rightarrow>
                        (Json 500 (JObj
                           [(''error'', JStr ''Failed to create export file''), (''details'', JStr m)]),
                         called st)
                    | Inr excelBuffer \<Rightarrow>
                        (Send xlsx_type
                           (''attachment; filename='' @ [dquote] @ ''combined-export-''
                              @ file_timestamp e @ ''.xlsx'' @ [dquote])
                           excelBuffer, called st)))))"

subsection \<open>Statistics and readiness probe\<close>

definition sql_min :: "int list \<Rightarrow> jsval" where
  "sql_min xs = (case xs of [] \<Rightarrow> JNull | y # ys \<Rightarrow> JNum (fold min ys y))"

definition sql_max :: "int list \<Rightarrow> jsval" where
  "sql_max xs = (case xs of [] \<Rightarrow> JNull | y # ys \<Rightarrow> JNum (fold max ys y))"

text \<open>\<^verbatim>\<open>app.get('/api/stats', ...)\<close>\<close>

definition get_stats :: "env \<Rightarrow> server \<Rightarrow> response \<times> server" where
  "get_stats e st =
     (if \<not> db st \<or> \<not> dbReady st then (db_unavailable st, st)
      else
       (case db_err e of
          Some m \<Rightarrow> (Json 500 (JObj [(''error'', JStr ''Failed to fetch statistics'')]), called st)
        | None \<Rightarrow>
            (Json 200 (JObj
               [(''total_completions'', count_of (scores st)),
                (''avg_time'', sql_avg e (map s_completion_time (scores st))),
                (''fastest_time'', sql_min (map s_completion_time (scores st))),
                (''slowest_time'', sql_max (map s_completion_time (scores st))),
                (''avg_accuracy'', sql_avg e (map s_accuracy (scores st))),
                (''avg_moves'', sql_avg e (map s_move_count (scores st)))]), called st)))"

text \<open>\<^verbatim>\<open>app.get('/api/ready', ...)\<close>, which reads the tracker and never the store.\<close>

definition get_ready :: "env \<Rightarrow> server \<Rightarrow> response \<times> server" where
  "get_ready e st =
     (if dbReady st \<and> db st
      then (Json 200 (JObj
              [(''status'', JStr ''ready''),
               (''database'', JStr ''connected''),
               (''timestamp'', JStr (now_iso e))]), st)
      else (Json 503 (JObj
              [(''status'', JStr ''not_ready''),
               (''database'', JStr (if dbReady st then ''connected'' else ''not_ready'')),
               (''error'', JStr (case dbError st of Some m \<Rightarrow> m | None \<Rightarrow> ''Initialization in progress'')),
               (''timestamp'', JStr (now_iso e))]), st))"

section \<open>Routes\<close>

text \<open>
  The operations that read or write the store, each with what its handler takes from the
  request: a JSON body, or the query parameters.
\<close>

datatype operation =
    PostScores jsobj
  | PostCheckDuplicate jsobj
  | PostCheckDuplicateEmail jsobj
  | PostQuizAnswers jsobj
  | GetStats
  | GetLeaderboard query_params
  | GetScoresExport
  | GetQuizExport query_params
  | GetLeaderboardWithQuiz query_params
  | GetQuizFormatted query_params
  | GetQuizCsv
  | GetQuizXlsx
  | GetExportCombined query_params

fun handler :: "env \<Rightarrow> operation \<Rightarrow> server \<Rightarrow> response \<times> server" where
  "handler e (PostScores body) = post_scores e body"
| "handler e (PostCheckDuplicate body) = post_check_duplicate e body"
| "handler e (PostCheckDuplicateEmail body) = post_check_duplicate_email e body"
| "handler e (PostQuizAnswers body) = post_quiz_answers e body"
| "handler e GetStats = get_stats e"
| "handler e (GetLeaderboard q) = get_leaderboard e q"
| "handler e GetScoresExport = get_scores_export e"
| "handler e (GetQuizExport q) = get_quiz_export e q"
| "handler e (GetLeaderboardWithQuiz q) = get_leaderboard_with_quiz e q"
| "handler e (GetQuizFormatted q) = get_quiz_formatted e q"
| "handler e GetQuizCsv = get_quiz_csv e"
| "handler e GetQuizXlsx = get_quiz_xlsx e"
| "handler e (GetExportCombined q) = get_export_combined e q"

text \<open>The routes registered with \<^verbatim>\<open>authenticateAdmin\<close> before the handler.\<close>

fun is_protected :: "operation \<Rightarrow> bool" where
  "is_protected (PostScores body) = False"
| "is_protected (PostCheckDuplicate body) = False"
| "is_protected (PostCheckDuplicateEmail body) = False"
| "is_protected (PostQuizAnswers body) = False"
| "is_protected GetStats = False"
| "is_protected (GetLeaderboard q) = True"
| "is_protected GetScoresExport = True"
| "is_protected (GetQuizExport q) = True"
| "is_protected (GetLeaderboardWithQuiz q) = True"
| "is_protected (GetQuizFormatted q) = True"
| "is_protected GetQuizCsv = True"
| "is_protected GetQuizXlsx = True"
| "is_protected (GetExportCombined q) = True"

definition route :: "string \<Rightarrow> env \<Rightarrow> auth_request \<Rightarrow> operation \<Rightarrow> server \<Rightarrow> response \<times> server" where
  "route secret e req op st =
     (if is_protected op then protected secret req (handler e op) st else handler e op st)"

section \<open>The specification's reading of the operations\<close>









text \<open>
  The required Completion fields that a payload lacks, as the validator tests them:
  accuracy is missing when undefined, any other field when falsy.
\<close>

definition scores_fields :: "string list" where
  "scores_fields =
     [''sessionId'', ''name'', ''email'', ''completionTime'', ''timeString'', ''difficulty'',
      ''moveCount'', ''accuracy'', ''completedAt'', ''resultsCode'']"

definition missing_fields :: "jsobj \<Rightarrow> string list" where
  "missing_fields body =
     filter (\<lambda>k. if k = ''accuracy'' then js_get body k = JUndefined else \<not> truthy (js_get body k))
       scores_fields"

definition missing_required :: "jsobj \<Rightarrow> response" where
  "missing_required body = Json 400 (JObj
     [(''error'', JStr ''Missing required fields''),
      (''required'', scores_required),
      (''received'', JObj body)])"


text \<open>The first error among the steps whose failure \<^verbatim>\<open>initializeDatabase\<close> acts on.\<close>

definition first_error :: "init_env \<Rightarrow> string option" where
  "first_error ie =
     (case open_throws ie of Some m \<Rightarrow> Some m | None \<Rightarrow>
     (case open_err ie of Some m \<Rightarrow> Some m | None \<Rightarrow>
     (case create_scores_err ie of Some m \<Rightarrow> Some m | None \<Rightarrow>
     (case create_quiz_err ie of Some m \<Rightarrow> Some m | None \<Rightarrow>
      test_insert_err ie))))"

text \<open>The three module variables the tracker state is read from.\<close>

definition tracker_vars :: "server \<Rightarrow> bool \<times> bool \<times> string option" where
  "tracker_vars st = (db st, dbReady st, dbError st)"

section \<open>Example data\<close>

definition example_env :: env where
  "example_env =
     \<lparr>now_iso = ''2024-05-01T10:20:30.456Z'', now_sql = ''2024-05-01 10:20:30'',
      db_err = None, db_err2 = None,
      sql_integer = (\<lambda>s. if s = ''2'' then Some 2 else if s = ''5'' then Some 5
                         else if s = ''8'' then Some 8 else None),
      sql_like = (\<lambda>p v. False), sql_avg = (\<lambda>xs. JNull), join_rank = (\<lambda>qa. 0),
      parseInt = (\<lambda>v. case v of JNum n \<Rightarrow> JNum n | JStr s \<Rightarrow> (if s = ''5'' then JNum 5 else JNull)
                            | _ \<Rightarrow> JNull),
      xlsx_write = (\<lambda>n cells. Inr (concat (map js_to_string (concat cells))))\<rparr>"

definition example_init :: init_env where
  "example_init =
     \<lparr>open_throws = None, open_err = None, create_scores_err = None, create_quiz_err = None,
      test_insert_err = None, test_delete_err = None,
      init_now_iso = ''2024-05-01T10:00:00.000Z'', init_now_sql = ''2024-05-01 10:00:00''\<rparr>"

definition ready_server :: "score list \<Rightarrow> quiz_answer list \<Rightarrow> server" where
  "ready_server ss qs =
     \<lparr>db = True, dbReady = True, dbError = None, scores = ss, quiz_answers = qs,
      scores_seq = int (length ss), quiz_seq = int (length qs), db_calls = 0\<rparr>"


definition example_quiz :: "int \<Rightarrow> string \<Rightarrow> string \<Rightarrow> string \<Rightarrow> quiz_answer" where
  "example_quiz i session name email =
     \<lparr>q_id = i, q_session_id = session, q_participant_name = name,
      q_participant_email = email, q_participant_mobile = ''0400'',
      q_question1_part1 = Some ''yes'', q_question1_part2 = None, q_question2 = None,
      q_question3_part1 = None, q_question3_part2 = None, q_question4_part1 = None,
      q_question4_part2 = None, q_question5_part1 = None, q_question5_part2 = None,
      q_question6 = None, q_recipient1_name = None, q_recipient1_role = None,
      q_recipient2_name = None, q_recipient2_position = None, q_question7 = None,
      q_additional_comments = None, q_submitted_at = ''2024-05-01T10:05:00.000Z'',
      q_created_at = ''2024-05-01 10:05:00''\<rparr>"




definition example_body :: jsobj where
  "example_body =
     [(''sessionId'', JStr ''S1''), (''name'', JStr ''Alice''), (''email'', JStr ''a@b.com''),
      (''completionTime'', JNum 60000), (''timeString'', JStr ''00:01:00''),
      (''difficulty'', JNum 8), (''moveCount'', JNum 40), (''accuracy'', JNum 0),
      (''completedAt'', JStr ''2024-05-01T10:00:00.000Z''), (''resultsCode'', JStr ''RC'')]"

section \<open>Properties: readiness gating\<close>

lemma tracker_Ready: "tracker st = Ready \<longleftrightarrow> db st \<and> dbReady st"
  by (simp add: tracker_def split: option.splits)

lemma handler_unavailable:
  assumes "\<not> db st \<or> \<not> dbReady st"
  shows "handler e op st = (db_unavailable st, st)"
proof (cases op)
  case (PostScores body) with assms show ?thesis by (simp add: post_scores_def)
next
  case (PostCheckDuplicate body) with assms show ?thesis by (simp add: post_check_duplicate_def)
next
  case (PostCheckDuplicateEmail body) with assms show ?thesis by (simp add: post_check_duplicate_email_def)
next
  case (PostQuizAnswers body) with assms show ?thesis by (simp add: post_quiz_answers_def)
next
  case GetStats with assms show ?thesis by (simp add: get_stats_def)
next
  case (GetLeaderboard q) with assms show ?thesis by (simp add: get_leaderboard_def)
next
  case GetScoresExport with assms show ?thesis by (simp add: get_scores_export_def)
next
  case (GetQuizExport q) with assms show ?thesis by (simp add: get_quiz_export_def)
next
  case (GetLeaderboardWithQuiz q) with assms show ?thesis by (simp add: get_leaderboard_with_quiz_def)
next
  case (GetQuizFormatted q) with assms show ?thesis by (simp add: get_quiz_formatted_def)
next
  case GetQuizCsv with assms show ?thesis by (simp add: get_quiz_csv_def)
next
  case GetQuizXlsx with assms show ?thesis by (simp add: get_quiz_xlsx_def)
next
  case (GetExportCombined q) with assms show ?thesis by (simp add: get_export_combined_def)
qed

text \<open>
  Claim C2. Every handler that reads or writes the store, run while the tracker is in any
  state but Ready, answers 503 ``Database not available'' and returns the state it was
  given: no statement reaches the store (\<open>db_calls\<close> is unchanged) and no row is added to
  either table. The same holds of the whole route, whose Access Guard runs before a
  protected handler: the state is unchanged in every case, and the answer is the 503
  when the route is public or the guard lets the request through.
\<close>

theorem readiness_gating:
  assumes "tracker st \<noteq> Ready"
  shows "handler e op st = (db_unavailable st, st)
       \<and> db_calls (snd (handler e op st)) = db_calls st
       \<and> scores (snd (handler e op st)) = scores st
       \<and> quiz_answers (snd (handler e op st)) = quiz_answers st
       \<and> snd (route secret e req op st) = st
       \<and> ((is_protected op \<longrightarrow> authenticateAdmin secret req = Next)
            \<longrightarrow> route secret e req op st = (db_unavailable st, st))"
proof -
  from assms have g: "\<not> db st \<or> \<not> dbReady st" by (simp add: tracker_Ready)
  have h: "handler e op st = (db_unavailable st, st)" by (rule handler_unavailable [OF g])
  show ?thesis
    by (cases "authenticateAdmin secret req") (simp_all add: h route_def protected_def)
qed

theorem readiness_gating_witness:
  "tracker (initial_server [] [] 0 0\<lparr>db := True\<rparr>) = Initializing
   \<and> handler example_env (PostScores example_body) (initial_server [] [] 0 0\<lparr>db := True\<rparr>)
       = (db_unavailable (initial_server [] [] 0 0\<lparr>db := True\<rparr>), initial_server [] [] 0 0\<lparr>db := True\<rparr>)
   \<and> scores (snd (handler example_env (PostScores example_body) (initial_server [] [] 0 0\<lparr>db := True\<rparr>))) = []
   \<and> db_calls (snd (handler example_env (PostScores example_body) (initial_server [] [] 0 0\<lparr>db := True\<rparr>))) = 0"
  using readiness_gating [of "initial_server [] [] 0 0\<lparr>db := True\<rparr>" example_env
          "PostScores example_body" "[]" "\<lparr>authorization = None, x_admin_token = None, query_token = None\<rparr>"]
  by (simp add: tracker_def initial_server_def)

section \<open>Properties: access guard\<close>

lemma ADMIN_TOKEN_nonempty: "ADMIN_TOKEN t r \<noteq> []"
  by (simp add: ADMIN_TOKEN_def split: option.splits)

text \<open>
  Claim C7. With the configured secret (never empty), a request whose Authorization
  header is \<open>Bearer\<close> followed by the secret, or, when there is no bearer header, whose
  X-Admin-Token header is the secret, or, when that header is absent or empty too, whose
  \<open>token\<close> query parameter is the secret, reaches the wrapped handler, and the result is
  the handler's own in all three cases. Every other request is answered 401 with the
  state unchanged: with the hint of the three mechanisms when no token is provided, with
  ``Invalid authentication'' when the provided token differs from the secret.
\<close>

theorem access_guard:
  assumes "secret = ADMIN_TOKEN env_token random_hex"
  shows "(authorization req = Some (''Bearer '' @ secret) \<longrightarrow> protected secret req h st = h st)
    \<and> (\<not> (str_truthy (authorization req) \<and> startsWith (the (authorization req)) ''Bearer '')
         \<and> x_admin_token req = Some secret \<longrightarrow> protected secret req h st = h st)
    \<and> (\<not> (str_truthy (authorization req) \<and> startsWith (the (authorization req)) ''Bearer '')
         \<and> \<not> str_truthy (x_admin_token req) \<and> query_token req = Some secret
         \<longrightarrow> protected secret req h st = h st)
    \<and> (protected secret req h st = h st \<or> protected secret req h st = (auth_required, st)
         \<or> protected secret req h st = (auth_invalid, st))
    \<and> (\<not> str_truthy (providedToken req) \<longrightarrow> protected secret req h st = (auth_required, st))
    \<and> (str_truthy (providedToken req) \<and> providedToken req \<noteq> Some secret
         \<longrightarrow> protected secret req h st = (auth_invalid, st))
    \<and> (authorization req = None \<and> x_admin_token req = None \<and> query_token req = None
         \<longrightarrow> protected secret req h st = (auth_required, st))"
proof -
  have ne: "secret \<noteq> []" using assms by (simp add: ADMIN_TOKEN_nonempty)
  have a: "authorization req = Some (''Bearer '' @ secret) \<Longrightarrow> providedToken req = Some secret"
    by (simp add: providedToken_def str_truthy_def startsWith_def substring_def Let_def)
  have b: "\<not> (str_truthy (authorization req) \<and> startsWith (the (authorization req)) ''Bearer '')
       \<Longrightarrow> x_admin_token req = Some secret \<Longrightarrow> providedToken req = Some secret"
    using ne by (auto simp add: providedToken_def str_truthy_def Let_def)
  have c: "\<not> (str_truthy (authorization req) \<and> startsWith (the (authorization req)) ''Bearer '')
       \<Longrightarrow> \<not> str_truthy (x_admin_token req) \<Longrightarrow> query_token req = Some secret
       \<Longrightarrow> providedToken req = Some secret"
    using ne by (auto simp add: providedToken_def str_truthy_def Let_def)
  have d: "authorization req = None \<and> x_admin_token req = None \<and> query_token req = None
       \<Longrightarrow> \<not> str_truthy (providedToken req)"
    by (simp add: providedToken_def str_truthy_def Let_def)
  have ok: "providedToken req = Some secret \<Longrightarrow> protected secret req h st = h st"
    using ne by (simp add: protected_def authenticateAdmin_def str_truthy_def)
  have no: "\<not> str_truthy (providedToken req) \<Longrightarrow> protected secret req h st = (auth_required, st)"
    by (simp add: protected_def authenticateAdmin_def)
  have bad: "str_truthy (providedToken req) \<Longrightarrow> providedToken req \<noteq> Some secret
     \<Longrightarrow> protected secret req h st = (auth_invalid, st)"
    by (simp add: protected_def authenticateAdmin_def)
  show ?thesis using a b c d ok no bad by blast
qed

theorem access_guard_witness:
  "protected ''s3cret'' \<lparr>authorization = Some ''Bearer s3cret'', x_admin_token = None, query_token = None\<rparr>
      (get_stats example_env) (ready_server [] []) = get_stats example_env (ready_server [] [])
   \<and> protected ''s3cret'' \<lparr>authorization = None, x_admin_token = Some ''s3cret'', query_token = None\<rparr>
      (get_stats example_env) (ready_server [] []) = get_stats example_env (ready_server [] [])
   \<and> protected ''s3cret'' \<lparr>authorization = None, x_admin_token = None, query_token = Some ''s3cret''\<rparr>
      (get_stats example_env) (ready_server [] []) = get_stats example_env (ready_server [] [])
   \<and> protected ''s3cret'' \<lparr>authorization = None, x_admin_token = None, query_token = None\<rparr>
      (get_stats example_env) (ready_server [] []) = (auth_required, ready_server [] [])
   \<and> protected ''s3cret'' \<lparr>authorization = Some ''Bearer guess'', x_admin_token = Some ''s3cret'', query_token = None\<rparr>
      (get_stats example_env) (ready_server [] []) = (auth_invalid, ready_server [] [])"
  using access_guard [of "''s3cret''" "Some ''s3cret''" "[]"
          "\<lparr>authorization = Some ''Bearer s3cret'', x_admin_token = None, query_token = None\<rparr>"
          "get_stats example_env" "ready_server [] []"]
        access_guard [of "''s3cret''" "Some ''s3cret''" "[]"
          "\<lparr>authorization = None, x_admin_token = Some ''s3cret'', query_token = None\<rparr>"
          "get_stats example_env" "ready_server [] []"]
        access_guard [of "''s3cret''" "Some ''s3cret''" "[]"
          "\<lparr>authorization = None, x_admin_token = None, query_token = Some ''s3cret''\<rparr>"
          "get_stats example_env" "ready_server [] []"]
        access_guard [of "''s3cret''" "Some ''s3cret''" "[]"
          "\<lparr>authorization = None, x_admin_token = None, query_token = None\<rparr>"
          "get_stats example_env" "ready_server [] []"]
        access_guard [of "''s3cret''" "Some ''s3cret''" "[]"
          "\<lparr>authorization = Some ''Bearer guess'', x_admin_token = Some ''s3cret'', query_token = None\<rparr>"
          "get_stats example_env" "ready_server [] []"]
  by (simp add: ADMIN_TOKEN_def str_truthy_def providedToken_def startsWith_def substring_def)

section \<open>Properties: validation of a Completion\<close>

lemma missing_fields_iff:
  "missing_fields body \<noteq> [] \<longleftrightarrow>
    (\<not> truthy (js_get body ''sessionId'') \<or> \<not> truthy (js_get body ''name'') \<or> \<not> truthy (js_get body ''email'')
     \<or> \<not> truthy (js_get body ''completionTime'') \<or> \<not> truthy (js_get body ''timeString'')
     \<or> \<not> truthy (js_get body ''difficulty'') \<or> \<not> truthy (js_get body ''moveCount'')
     \<or> js_get body ''accuracy'' = JUndefined \<or> \<not> truthy (js_get body ''completedAt'')
     \<or> \<not> truthy (js_get body ''resultsCode''))"
  by (simp add: missing_fields_def scores_fields_def filter_empty_conv del: filter.simps)

lemma post_scores_missing:
  assumes "db st" "dbReady st" and "missing_fields body \<noteq> []"
  shows "post_scores e body st = (missing_required body, st)"
  using assms unfolding missing_fields_iff
  by (simp add: post_scores_def missing_required_def Let_def)

text \<open>
  Claim C3, as amended. With the store Ready, a payload that lacks at least one required
  Completion field is answered 400 ``Missing required fields'', and the state is the one
  before the call: no record is persisted and the store is not reached. The answer
  carries the fixed list of all ten required field names and the payload received, not
  the list of the fields that are missing.
\<close>

theorem missing_fields_rejected:
  assumes "tracker st = Ready" and "missing_fields body \<noteq> []"
  shows "post_scores e body st = (missing_required body, st)
       \<and> scores (snd (post_scores e body st)) = scores st
       \<and> db_calls (snd (post_scores e body st)) = db_calls st"
  using assms by (simp add: post_scores_missing tracker_Ready)

theorem missing_fields_rejected_witness:
  "missing_fields (filter (\<lambda>p. fst p \<noteq> ''name'') example_body) = [''name'']
   \<and> post_scores example_env (filter (\<lambda>p. fst p \<noteq> ''name'') example_body) (ready_server [] [])
       = (missing_required (filter (\<lambda>p. fst p \<noteq> ''name'') example_body), ready_server [] [])"
  using missing_fields_rejected [of "ready_server [] []" "filter (\<lambda>p. fst p \<noteq> ''name'') example_body" example_env]
  by (simp add: tracker_Ready ready_server_def missing_fields_def scores_fields_def example_body_def js_get_def)

text \<open>
  The claim as stated fails: a payload that lacks only \<open>name\<close> is answered with the list of
  all ten field names.
\<close>

theorem missing_fields_counterexample:
  "missing_fields (filter (\<lambda>p. fst p \<noteq> ''name'') example_body) = [''name'']
   \<and> fst (post_scores example_env (filter (\<lambda>p. fst p \<noteq> ''name'') example_body) (ready_server [] []))
       = Json 400 (JObj
           [(''error'', JStr ''Missing required fields''),
            (''required'', JArr (map JStr scores_fields)),
            (''received'', JObj (filter (\<lambda>p. fst p \<noteq> ''name'') example_body))])
   \<and> scores_fields \<noteq> missing_fields (filter (\<lambda>p. fst p \<noteq> ''name'') example_body)"
  by (simp add: post_scores_def ready_server_def missing_fields_def scores_fields_def scores_required_def
        example_body_def js_get_def Let_def)






lemma snd_saved:
  "snd (case x of
        (Inl m, st') \<Rightarrow> (f m, st')
      | (Inr lastID, st') \<Rightarrow> (g lastID, st')) = snd x"
  by (simp split: prod.splits sum.splits)




section \<open>Properties: the Formatted transformer\<close>

lemma js_get_formatted:
  "k \<noteq> ''participant_info'' \<Longrightarrow> k \<noteq> ''quiz_responses'' \<Longrightarrow> js_get (formatQuizAnswers r) k = JUndefined"
  by (simp add: formatQuizAnswers_def js_get_def Let_def)

lemma js_get_Nil: "js_get [] k = JUndefined"
  by (simp add: js_get_def)

lemma formatQuizAnswers_undefined:
  assumes "js_get r ''participant_name'' = JUndefined" "js_get r ''participant_email'' = JUndefined"
    "js_get r ''participant_mobile'' = JUndefined" "js_get r ''submitted_at'' = JUndefined"
    "\<forall>k \<in> set simpleFields. js_get r k = JUndefined"
  shows "formatQuizAnswers r =
     [(''participant_info'', JObj [(''name'', JUndefined), (''email'', JUndefined),
         (''mobile'', JUndefined), (''submitted_at'', JUndefined)]),
      (''quiz_responses'', JObj [])]"
  using assms by (simp add: formatQuizAnswers_def Let_def simpleFields_def)

lemma formatQuizAnswers_twice:
  "formatQuizAnswers (formatQuizAnswers r) =
     [(''participant_info'', JObj [(''name'', JUndefined), (''email'', JUndefined),
         (''mobile'', JUndefined), (''submitted_at'', JUndefined)]),
      (''quiz_responses'', JObj [])]"
  by (rule formatQuizAnswers_undefined) (simp_all add: js_get_formatted simpleFields_def)

text \<open>
  Claim C8, as amended. \<^verbatim>\<open>formatQuizAnswers\<close> is a pure function of its argument, and
  applied to its own output it yields, whatever the raw record was, the structure it
  yields on the empty record: the four fields of \<open>participant_info\<close> undefined and
  \<open>quiz_responses\<close> empty. That structure is a fixed point, so the transformer is
  idempotent from the second application on.
\<close>

theorem formatted_twice:
  "formatQuizAnswers (formatQuizAnswers r) = formatQuizAnswers []
   \<and> formatQuizAnswers (formatQuizAnswers (formatQuizAnswers r)) = formatQuizAnswers (formatQuizAnswers r)
   \<and> js_get (formatQuizAnswers (formatQuizAnswers r)) ''quiz_responses'' = JObj []
   \<and> js_get (formatQuizAnswers (formatQuizAnswers r)) ''participant_info'' =
       JObj [(''name'', JUndefined), (''email'', JUndefined), (''mobile'', JUndefined),
             (''submitted_at'', JUndefined)]"
proof -
  have a: "formatQuizAnswers [] = formatQuizAnswers (formatQuizAnswers r)"
    unfolding formatQuizAnswers_twice
    by (rule formatQuizAnswers_undefined) (simp_all add: js_get_Nil)
  have b: "formatQuizAnswers (formatQuizAnswers (formatQuizAnswers r)) = formatQuizAnswers (formatQuizAnswers r)"
    using formatQuizAnswers_twice [of "formatQuizAnswers r"] formatQuizAnswers_twice [of r]
    by (rule trans [OF _ sym])
  have c: "js_get (formatQuizAnswers (formatQuizAnswers r)) ''quiz_responses'' = JObj []"
    by (simp add: formatQuizAnswers_twice js_get_def)
  have d: "js_get (formatQuizAnswers (formatQuizAnswers r)) ''participant_info'' =
       JObj [(''name'', JUndefined), (''email'', JUndefined), (''mobile'', JUndefined),
             (''submitted_at'', JUndefined)]"
    by (simp add: formatQuizAnswers_twice js_get_def)
  show ?thesis using a b c d by simp
qed

theorem formatted_twice_witness:
  "formatQuizAnswers (formatQuizAnswers (quiz_row (example_quiz 1 ''S1'' ''Alice'' ''a@b.com'')))
     = [(''participant_info'', JObj [(''name'', JUndefined), (''email'', JUndefined),
           (''mobile'', JUndefined), (''submitted_at'', JUndefined)]),
        (''quiz_responses'', JObj [])]"
  using formatted_twice [of "quiz_row (example_quiz 1 ''S1'' ''Alice'' ''a@b.com'')"]
        formatQuizAnswers_undefined [of "[]"]
  by (simp add: js_get_Nil)

text \<open>
  The claim as stated fails: formatting a stored quiz row once keeps the participant's
  name, formatting the result again loses it.
\<close>

theorem formatted_twice_counterexample:
  "formatQuizAnswers (formatQuizAnswers (quiz_row (example_quiz 1 ''S1'' ''Alice'' ''a@b.com'')))
     \<noteq> formatQuizAnswers (quiz_row (example_quiz 1 ''S1'' ''Alice'' ''a@b.com''))"
proof -
  have "js_get (formatQuizAnswers (quiz_row (example_quiz 1 ''S1'' ''Alice'' ''a@b.com''))) ''participant_info''
      = JObj [(''name'', JStr ''Alice''), (''email'', JStr ''a@b.com''), (''mobile'', JStr ''0400''),
              (''submitted_at'', JStr ''2024-05-01T10:05:00.000Z'')]"
    by (simp add: formatQuizAnswers_def quiz_row_def answer_columns_def opt_text_def
          example_quiz_def simpleFields_def js_get_def Let_def)
  moreover have "js_get (formatQuizAnswers (formatQuizAnswers (quiz_row (example_quiz 1 ''S1'' ''Alice'' ''a@b.com'')))) ''participant_info''
      = JObj [(''name'', JUndefined), (''email'', JUndefined), (''mobile'', JUndefined),
              (''submitted_at'', JUndefined)]"
    by (simp add: formatQuizAnswers_twice js_get_def)
  ultimately show ?thesis by auto
qed

section \<open>Properties: duplicate detector\<close>

lemma text_eq_JStr: "text_eq col (JStr s) \<longleftrightarrow> col = s"
  by (auto simp add: text_eq_def)

text \<open>
  Claim C6. With the store Ready and answering, for a non-empty email and a non-empty
  name, the duplicate check answers \<open>isDuplicate\<close> true exactly when some stored
  QuizSubmission has that email or that name, \<open>existingCount\<close> the number of such
  records, and adds nothing to the store.
\<close>

theorem duplicate_quiz:
  assumes "tracker st = Ready" and "db_err e = None"
    and "js_get body ''participantEmail'' = JStr email" and "email \<noteq> []"
    and "js_get body ''participantName'' = JStr name" and "name \<noteq> []"
  shows "post_check_duplicate e body st =
      (Json 200 (JObj
         [(''isDuplicate'', JBool (\<exists>qa\<in>set (quiz_answers st).
              q_participant_email qa = email \<or> q_participant_name qa = name)),
          (''existingCount'', JNum (int (length (filter
              (\<lambda>qa. q_participant_email qa = email \<or> q_participant_name qa = name) (quiz_answers st))))),
          (''message'', JStr (if \<exists>qa\<in>set (quiz_answers st).
              q_participant_email qa = email \<or> q_participant_name qa = name
            then ''Entry already exists for this email or name'' else ''No duplicate found''))]),
       called st)"
  using assms unfolding tracker_Ready
  by (auto simp add: post_check_duplicate_def count_duplicate_quiz_def text_eq_JStr filter_empty_conv Let_def)

theorem duplicate_quiz_witness:
  "fst (post_check_duplicate example_env
      [(''participantEmail'', JStr ''a@b.com''), (''participantName'', JStr ''Bob'')]
      (ready_server [] [example_quiz 1 ''S1'' ''Alice'' ''a@b.com'']))
    = Json 200 (JObj [(''isDuplicate'', JBool True), (''existingCount'', JNum 1),
        (''message'', JStr ''Entry already exists for this email or name'')])
   \<and> fst (post_check_duplicate example_env
      [(''participantEmail'', JStr ''c@d.com''), (''participantName'', JStr ''Carol'')]
      (ready_server [] [example_quiz 1 ''S1'' ''Alice'' ''a@b.com'']))
    = Json 200 (JObj [(''isDuplicate'', JBool False), (''existingCount'', JNum 0),
        (''message'', JStr ''No duplicate found'')])"
  using duplicate_quiz [of "ready_server [] [example_quiz 1 ''S1'' ''Alice'' ''a@b.com'']" example_env
          "[(''participantEmail'', JStr ''a@b.com''), (''participantName'', JStr ''Bob'')]" "''a@b.com''" "''Bob''"]
        duplicate_quiz [of "ready_server [] [example_quiz 1 ''S1'' ''Alice'' ''a@b.com'']" example_env
          "[(''participantEmail'', JStr ''c@d.com''), (''participantName'', JStr ''Carol'')]" "''c@d.com''" "''Carol''"]
  by (simp add: tracker_Ready ready_server_def example_env_def example_quiz_def js_get_def)

section \<open>Properties: readiness tracker\<close>

lemma tracker_vars_called: "tracker_vars (called st) = tracker_vars st"
  by (simp add: tracker_vars_def called_def)

lemma snd_case_sum:
  "snd (case x of Inl m \<Rightarrow> (f m, s) | Inr r \<Rightarrow> (g r, t r)) = (case x of Inl m \<Rightarrow> s | Inr r \<Rightarrow> t r)"
  by (cases x) simp_all

lemma tracker_vars_insert_score:
  "tracker_vars (snd (run_insert_score e a b c d f g h i j k st)) = tracker_vars st"
  unfolding run_insert_score_def Let_def
  by (cases "db_err e") (simp_all add: snd_case_sum tracker_vars_def called_def split: sum.splits)

lemma tracker_vars_insert_quiz:
  "tracker_vars (snd (run_insert_quiz e ps st)) = tracker_vars st"
  unfolding run_insert_quiz_def Let_def
  by (cases "db_err e")
     (simp_all add: snd_case_sum tracker_vars_def called_def split: sum.splits split del: if_split)

lemma tracker_vars_post_scores: "tracker_vars (snd (post_scores e body st)) = tracker_vars st"
  by (simp add: post_scores_def Let_def snd_saved tracker_vars_insert_score)

lemma tracker_vars_post_quiz: "tracker_vars (snd (post_quiz_answers e body st)) = tracker_vars st"
  by (simp add: post_quiz_answers_def Let_def snd_saved tracker_vars_insert_quiz)

lemma tracker_vars_handler: "tracker_vars (snd (handler e op st)) = tracker_vars st"
proof (cases op)
  case (PostScores body) then show ?thesis by (simp add: tracker_vars_post_scores)
next
  case (PostCheckDuplicate body) then show ?thesis
    by (simp add: post_check_duplicate_def Let_def tracker_vars_called split: option.splits)
next
  case (PostCheckDuplicateEmail body) then show ?thesis
    by (simp add: post_check_duplicate_email_def Let_def tracker_vars_called split: option.splits)
next
  case (PostQuizAnswers body) then show ?thesis by (simp add: tracker_vars_post_quiz)
next
  case GetStats then show ?thesis
    by (simp add: get_stats_def tracker_vars_called split: option.splits)
next
  case (GetLeaderboard q) then show ?thesis
    by (simp add: get_leaderboard_def Let_def tracker_vars_called split: sum.splits)
next
  case GetScoresExport then show ?thesis
    by (simp add: get_scores_export_def Let_def tracker_vars_called split: option.splits)
next
  case (GetQuizExport q) then show ?thesis
    by (simp add: get_quiz_export_def Let_def tracker_vars_called split: option.splits)
next
  case (GetLeaderboardWithQuiz q) then show ?thesis
    by (simp add: get_leaderboard_with_quiz_def Let_def tracker_vars_called split: sum.splits)
next
  case (GetQuizFormatted q) then show ?thesis
    by (simp add: get_quiz_formatted_def Let_def tracker_vars_called split: sum.splits option.splits)
next
  case GetQuizCsv then show ?thesis
    by (simp add: get_quiz_csv_def Let_def tracker_vars_called split: option.splits)
next
  case GetQuizXlsx then show ?thesis
    by (simp add: get_quiz_xlsx_def Let_def tracker_vars_called split: option.splits sum.splits)
next
  case (GetExportCombined q) then show ?thesis
    by (simp add: get_export_combined_def Let_def tracker_vars_called split: option.splits sum.splits)
qed

lemma tracker_vars_route: "tracker_vars (snd (route secret e req op st)) = tracker_vars st"
  by (cases "authenticateAdmin secret req") (simp_all add: route_def protected_def tracker_vars_handler)

lemma tracker_of_vars:
  "tracker_vars st' = tracker_vars st \<Longrightarrow> tracker st' = tracker st"
  by (simp add: tracker_vars_def tracker_def)

lemma first_error_None:
  "first_error ie = None \<longleftrightarrow>
     open_throws ie = None \<and> open_err ie = None \<and> create_scores_err ie = None
     \<and> create_quiz_err ie = None \<and> test_insert_err ie = None"
  by (simp add: first_error_def split: option.splits)

lemma init_ready:
  assumes "first_error ie = None"
  shows "fst (initializeDatabase ie st) = True
     \<and> tracker (snd (initializeDatabase ie st)) = Ready
     \<and> db_calls (snd (initializeDatabase ie st)) = db_calls st + 4
     \<and> scores (snd (initializeDatabase ie st)) =
         (case test_delete_err ie of
            None \<Rightarrow> filter (\<lambda>s. s_session_id s \<noteq> ''TEST-SESSION-123'') (scores st)
          | Some m \<Rightarrow> scores st @ [test_record (next_id (scores_seq st) (map s_id (scores st)))
                                      (init_now_iso ie) (init_now_sql ie)])"
proof -
  from assms have e: "open_throws ie = None" "open_err ie = None" "create_scores_err ie = None"
     "create_quiz_err ie = None" "test_insert_err ie = None"
    by (simp_all add: first_error_None)
  show ?thesis
    by (cases "test_delete_err ie")
       (simp_all add: initializeDatabase_def e tracker_def called_def test_record_def Let_def)
qed

lemma init_failed:
  "first_error ie = Some m \<Longrightarrow>
     fst (initializeDatabase ie st) = False
     \<and> tracker (snd (initializeDatabase ie st)) = Failed m
     \<and> scores (snd (initializeDatabase ie st)) = scores st"
  by (simp add: first_error_def initializeDatabase_def tracker_def called_def failed_def Let_def
        split: option.splits)

text \<open>
  Claim C5, as amended. \<^verbatim>\<open>initializeDatabase\<close> leaves the tracker Ready exactly when the
  connection opens, both \<^verbatim>\<open>CREATE TABLE\<close> statements succeed and the self-test insert
  succeeds; the four statements, the delete of the self-test record among them, have
  then been handed to the store, and the record is gone when the delete succeeded. An
  error of the delete is not acted on: the state is Ready all the same. An error at the
  opening, at either table or at the insert leaves the tracker Failed with the message
  of that error and the tables as they were. No request handler and no route writes the
  tracker: whatever a request does, the tracker state after it is the state before it,
  so nothing leaves Failed.
\<close>

theorem readiness_machine:
  "(tracker (snd (initializeDatabase ie st)) = Ready \<longleftrightarrow>
       open_throws ie = None \<and> open_err ie = None \<and> create_scores_err ie = None
       \<and> create_quiz_err ie = None \<and> test_insert_err ie = None)
   \<and> (first_error ie = None \<longrightarrow>
         fst (initializeDatabase ie st) = True
         \<and> db_calls (snd (initializeDatabase ie st)) = db_calls st + 4
         \<and> (test_delete_err ie = None \<longrightarrow>
              scores (snd (initializeDatabase ie st)) =
                filter (\<lambda>s. s_session_id s \<noteq> ''TEST-SESSION-123'') (scores st)))
   \<and> (\<forall>m. first_error ie = Some m \<longrightarrow>
         fst (initializeDatabase ie st) = False
         \<and> tracker (snd (initializeDatabase ie st)) = Failed m
         \<and> scores (snd (initializeDatabase ie st)) = scores st)
   \<and> tracker (snd (handler e op st)) = tracker st
   \<and> tracker (snd (route secret e req op st)) = tracker st
   \<and> tracker (snd (get_ready e st)) = tracker st"
proof -
  have a: "tracker (snd (initializeDatabase ie st)) = Ready \<longleftrightarrow> first_error ie = None"
  proof (cases "first_error ie")
    case None then show ?thesis using init_ready [of ie st] by simp
  next
    case (Some m) then show ?thesis using init_failed [of ie m st] by simp
  qed
  have b: "first_error ie = None \<longrightarrow>
         fst (initializeDatabase ie st) = True
         \<and> db_calls (snd (initializeDatabase ie st)) = db_calls st + 4
         \<and> (test_delete_err ie = None \<longrightarrow>
              scores (snd (initializeDatabase ie st)) =
                filter (\<lambda>s. s_session_id s \<noteq> ''TEST-SESSION-123'') (scores st))"
    using init_ready [of ie st] by simp
  have c: "\<forall>m. first_error ie = Some m \<longrightarrow>
         fst (initializeDatabase ie st) = False
         \<and> tracker (snd (initializeDatabase ie st)) = Failed m
         \<and> scores (snd (initializeDatabase ie st)) = scores st"
    using init_failed [of ie _ st] by blast
  have d: "tracker (snd (handler e op st)) = tracker st"
    by (rule tracker_of_vars [OF tracker_vars_handler])
  have f: "tracker (snd (route secret e req op st)) = tracker st"
    by (rule tracker_of_vars [OF tracker_vars_route])
  have g: "tracker (snd (get_ready e st)) = tracker st"
    by (simp add: get_ready_def)
  show ?thesis
    using a b c d f g unfolding first_error_None by blast
qed

theorem readiness_machine_witness:
  "tracker (snd (initializeDatabase example_init (initial_server [] [] 0 0))) = Ready
   \<and> db_calls (snd (initializeDatabase example_init (initial_server [] [] 0 0))) = 4
   \<and> scores (snd (initializeDatabase example_init (initial_server [] [] 0 0))) = []
   \<and> tracker (snd (initializeDatabase (example_init\<lparr>create_quiz_err := Some ''disk full''\<rparr>)
        (initial_server [] [] 0 0))) = Failed ''disk full''
   \<and> tracker (snd (handler example_env (PostScores example_body)
        (snd (initializeDatabase (example_init\<lparr>create_quiz_err := Some ''disk full''\<rparr>)
           (initial_server [] [] 0 0))))) = Failed ''disk full''"
  using readiness_machine [of example_init "initial_server [] [] 0 0" example_env GetStats "[]"
          "\<lparr>authorization = None, x_admin_token = None, query_token = None\<rparr>"]
        readiness_machine [of "example_init\<lparr>create_quiz_err := Some ''disk full''\<rparr>"
          "initial_server [] [] 0 0" example_env GetStats "[]"
          "\<lparr>authorization = None, x_admin_token = None, query_token = None\<rparr>"]
        readiness_machine [of example_init
          "snd (initializeDatabase (example_init\<lparr>create_quiz_err := Some ''disk full''\<rparr>)
             (initial_server [] [] 0 0))" example_env "PostScores example_body" "[]"
          "\<lparr>authorization = None, x_admin_token = None, query_token = None\<rparr>"]
  by (simp add: first_error_def example_init_def initial_server_def)

text \<open>
  The claim as stated fails: when every step succeeds but the delete of the self-test
  record reports an error, the tracker is Ready, and the self-test record stays in the
  table.
\<close>

theorem readiness_machine_counterexample:
  "tracker (snd (initializeDatabase (example_init\<lparr>test_delete_err := Some ''disk I/O error''\<rparr>)
      (initial_server [] [] 0 0))) = Ready
   \<and> map s_session_id (scores (snd (initializeDatabase
        (example_init\<lparr>test_delete_err := Some ''disk I/O error''\<rparr>) (initial_server [] [] 0 0))))
      = [''TEST-SESSION-123'']"
  by (simp add: initializeDatabase_def example_init_def initial_server_def tracker_def called_def
        test_record_def Let_def)

section \<open>Properties: combined export\<close>








section \<open>Properties: exports of an empty record set\<close>

lemma order_desc_Nil: "order_desc k [] = []"
  by (simp add: order_desc_def)

lemma left_join_Nil: "left_join rank [] qs = []"
  by (simp add: left_join_def)

lemma json_to_sheet_Nil: "json_to_sheet [] = [[]]"
  by (simp add: json_to_sheet_def sheet_header_def)

text \<open>
  Claim C9, as amended. With the store Ready and answering, on an empty record set the
  CSV transformers (quiz answers, combined export) send the header line of the declared
  human labels and nothing else. The spreadsheet transformers raise no error of their
  own: they hand the xlsx library a worksheet built from an empty list of rows, which
  has no cell at all, also no header cell, since \<^verbatim>\<open>json_to_sheet\<close> takes the headers from
  the keys of the row objects; what is sent is what the library writes for that sheet,
  or a 500 when the library throws.
\<close>

theorem empty_exports:
  assumes "tracker st = Ready" and "db_err e = None"
  shows "(quiz_answers st = [] \<longrightarrow>
           get_quiz_csv e st =
             (Send ''text/csv''
                (''attachment; filename='' @ [dquote] @ ''quiz-answers-'' @ file_timestamp e @ ''.csv'' @ [dquote])
                (join '','' quiz_headers @ [newline]), called st)
         \<and> get_quiz_xlsx e st =
             ((case xlsx_write e ''Quiz Answers'' [[]] of
                 Inl m \<Rightarrow> Json 500 (JObj
                    [(''error'', JStr ''Failed to create Excel file''), (''details'', JStr m)])
               | Inr excelBuffer \<Rightarrow> Send xlsx_type
                    (''attachment; filename='' @ [dquote] @ ''quiz-answers-'' @ file_timestamp e
                       @ ''.xlsx'' @ [dquote]) excelBuffer), called st))
       \<and> (scores st = [] \<longrightarrow>
           get_export_combined e (q\<lparr>query_format := Some ''csv''\<rparr>) st =
             (Send ''text/csv''
                (''attachment; filename='' @ [dquote] @ ''combined-export-'' @ file_timestamp e @ ''.csv'' @ [dquote])
                (join '','' combined_headers @ [newline]), called st)
         \<and> get_export_combined e (q\<lparr>query_format := None\<rparr>) st =
             ((case xlsx_write e ''Combined Export'' [[]] of
                 Inl m \<Rightarrow> Json 500 (JObj
                    [(''error'', JStr ''Failed to create export file''), (''details'', JStr m)])
               | Inr excelBuffer \<Rightarrow> Send xlsx_type
                    (''attachment; filename='' @ [dquote] @ ''combined-export-'' @ file_timestamp e
                       @ ''.xlsx'' @ [dquote]) excelBuffer), called st))"
proof -
  from assms have r: "db st" "dbReady st" by (simp_all add: tracker_Ready)
  have a: "get_quiz_csv e st =
             (Send ''text/csv''
                (''attachment; filename='' @ [dquote] @ ''quiz-answers-'' @ file_timestamp e @ ''.csv'' @ [dquote])
                (join '','' quiz_headers @ [newline]), called st)" if "quiz_answers st = []"
    using r assms(2) that by (simp add: get_quiz_csv_def order_desc_Nil)
  have b: "get_quiz_xlsx e st =
             ((case xlsx_write e ''Quiz Answers'' [[]] of
                 Inl m \<Rightarrow> Json 500 (JObj
                    [(''error'', JStr ''Failed to create Excel file''), (''details'', JStr m)])
               | Inr excelBuffer \<Rightarrow> Send xlsx_type
                    (''attachment; filename='' @ [dquote] @ ''quiz-answers-'' @ file_timestamp e
                       @ ''.xlsx'' @ [dquote]) excelBuffer), called st)" if "quiz_answers st = []"
    using r assms(2) that
    by (simp add: get_quiz_xlsx_def order_desc_Nil json_to_sheet_Nil split: sum.splits)
  have c: "get_export_combined e (q\<lparr>query_format := Some ''csv''\<rparr>) st =
             (Send ''text/csv''
                (''attachment; filename='' @ [dquote] @ ''combined-export-'' @ file_timestamp e @ ''.csv'' @ [dquote])
                (join '','' combined_headers @ [newline]), called st)" if "scores st = []"
    using r assms(2) that
    by (simp add: get_export_combined_def order_desc_Nil left_join_Nil query_or_def str_truthy_def)
  have d: "get_export_combined e (q\<lparr>query_format := None\<rparr>) st =
             ((case xlsx_write e ''Combined Export'' [[]] of
                 Inl m \<Rightarrow> Json 500 (JObj
                    [(''error'', JStr ''Failed to create export file''), (''details'', JStr m)])
               | Inr excelBuffer \<Rightarrow> Send xlsx_type
                    (''attachment; filename='' @ [dquote] @ ''combined-export-'' @ file_timestamp e
                       @ ''.xlsx'' @ [dquote]) excelBuffer), called st)" if "scores st = []"
    using r assms(2) that
    by (simp add: get_export_combined_def order_desc_Nil left_join_Nil json_to_sheet_Nil
          query_or_def str_truthy_def split: sum.splits)
  show ?thesis using a b c d by blast
qed

theorem empty_exports_witness:
  "fst (get_quiz_csv example_env (ready_server [] [])) =
     Send ''text/csv''
       (''attachment; filename='' @ [dquote] @ ''quiz-answers-2024-05-01T10-20-30.csv'' @ [dquote])
       (join '','' quiz_headers @ [newline])
   \<and> fst (get_quiz_xlsx example_env (ready_server [] [])) =
     Send xlsx_type
       (''attachment; filename='' @ [dquote] @ ''quiz-answers-2024-05-01T10-20-30.xlsx'' @ [dquote]) []"
  using empty_exports [of "ready_server [] []" example_env
          "\<lparr>query_limit = None, query_offset = None, query_difficulty = None, query_format = None,
            query_search = None\<rparr>"]
  by (simp add: tracker_Ready ready_server_def example_env_def file_timestamp_def)

text \<open>
  The claim as stated fails: for the empty record set the worksheet has one row without
  cells, not the row of the labels; the labels appear as soon as there is one record.
\<close>

theorem empty_exports_counterexample:
  "json_to_sheet (map quiz_excel_row (map quiz_row (order_desc q_submitted_at []))) = [[]]
   \<and> [[]] \<noteq> [map JStr quiz_headers]
   \<and> hd (json_to_sheet (map quiz_excel_row
         (map quiz_row (order_desc q_submitted_at [example_quiz 1 ''S1'' ''Alice'' ''a@b.com'']))))
       = map JStr quiz_headers"
proof -
  have a: "json_to_sheet (map quiz_excel_row (map quiz_row (order_desc q_submitted_at []))) = [[]]"
    by (simp add: order_desc_Nil json_to_sheet_Nil)
  have b: "[[]] \<noteq> [map JStr quiz_headers]"
    by (simp add: quiz_headers_def)
  have c: "sheet_header [quiz_excel_row row] = quiz_headers" for row
    by (simp add: sheet_header_def quiz_excel_row_def quiz_headers_def simpleFields_def)
  have d: "hd (json_to_sheet (map quiz_excel_row
         (map quiz_row (order_desc q_submitted_at [example_quiz 1 ''S1'' ''Alice'' ''a@b.com'']))))
       = map JStr quiz_headers"
    by (simp add: order_desc_def json_to_sheet_def c Let_def)
  show ?thesis using a b d by simp
qed

section \<open>Properties: the joined leaderboard\<close>



























text \<open>
  Every stored QuizSubmission has a participant name: the validator lets no payload
  through whose name is falsy, what it lets through is bound as a non-empty text, and no
  other route, nor the initialization, touches the quiz rows.
\<close>

lemma string_of_nat_nonempty: "string_of_nat n \<noteq> []"
  by (subst string_of_nat.simps) (simp del: string_of_nat.simps)

lemma text_col_truthy:
  assumes "truthy v" and "text_col c v = Inr s"
  shows "s \<noteq> []"
  using assms
  by (cases v)
    (auto simp add: text_col_def string_of_int_def string_of_nat_nonempty
       simp del: string_of_nat.simps split: if_splits)

lemma run_insert_quiz_rows:
  assumes "run_insert_quiz e params st = (r, st')"
  shows "quiz_answers st' = quiz_answers st
       \<or> (\<exists>row. quiz_answers st' = quiz_answers st @ [row]
            \<and> text_col ''quiz_answers.participant_name''
                 (if 1 < length params then params ! 1 else JUndefined) = Inr (q_participant_name row))"
  using assms
  by (auto simp add: run_insert_quiz_def Let_def sum_bind_def called_def
        split: option.splits sum.splits split del: if_split)

lemma post_quiz_answers_names:
  assumes "\<forall>qa\<in>set (quiz_answers st). q_participant_name qa \<noteq> []"
  shows "\<forall>qa\<in>set (quiz_answers (snd (post_quiz_answers e body st))). q_participant_name qa \<noteq> []"
proof -
  define params where "params = [js_get body ''sessionId'', js_get body ''participantName'',
                  js_get body ''participantEmail'', js_get body ''participantMobile'']
                   @ map (js_get body)
                      [''question1Part1'', ''question1Part2'', ''question2'', ''question3Part1'',
                       ''question3Part2'', ''question4Part1'', ''question4Part2'', ''question5Part1'',
                       ''question5Part2'', ''question6'', ''recipient1Name'', ''recipient1Role'',
                       ''recipient2Name'', ''recipient2Position'', ''question7'', ''additionalComments'']
                   @ [js_get body ''submittedAt'']"
  have p: "(if 1 < length params then params ! 1 else JUndefined) = js_get body ''participantName''"
    by (simp add: params_def)
  obtain r st' where i: "run_insert_quiz e params st = (r, st')"
    by (cases "run_insert_quiz e params st") blast
  have k: "\<forall>qa\<in>set (quiz_answers st'). q_participant_name qa \<noteq> []"
    if t: "truthy (js_get body ''participantName'')"
    using run_insert_quiz_rows [OF i] assms text_col_truthy [OF t] unfolding p
    by auto
  have "snd (post_quiz_answers e body st) = st \<or>
        (truthy (js_get body ''participantName'') \<and> snd (post_quiz_answers e body st) = st')"
    unfolding post_quiz_answers_def Let_def params_def [symmetric] i
    by (cases r) simp_all
  with assms k show ?thesis by auto
qed

lemma run_insert_score_quiz:
  "quiz_answers (snd (run_insert_score e a1 a2 a3 a4 a5 a6 a7 a8 a9 a10 st)) = quiz_answers st"
  by (simp add: run_insert_score_def Let_def called_def split: option.splits sum.splits)

lemma post_scores_quiz: "quiz_answers (snd (post_scores e body st)) = quiz_answers st"
proof -
  obtain x st' where i: "run_insert_score e (js_get body ''sessionId'')
          (js_get body ''name'') (js_get body ''email'')
          (js_get body ''completionTime'') (js_get body ''timeString'')
          (js_get body ''difficulty'') (js_get body ''moveCount'')
          (js_get body ''accuracy'') (js_get body ''completedAt'') (js_get body ''resultsCode'') st = (x, st')"
    by (rule prod.exhaust)
  from run_insert_score_quiz [of e "js_get body ''sessionId''"
          "js_get body ''name''" "js_get body ''email''"
          "js_get body ''completionTime''" "js_get body ''timeString''"
          "js_get body ''difficulty''" "js_get body ''moveCount''"
          "js_get body ''accuracy''" "js_get body ''completedAt''" "js_get body ''resultsCode''" st]
  have q: "quiz_answers st' = quiz_answers st"
    unfolding i by simp
  show ?thesis
    unfolding post_scores_def Let_def i
    using q by (cases x) simp_all
qed

lemma reads_keep_quiz:
  "quiz_answers (snd (post_check_duplicate e body st)) = quiz_answers st"
  "quiz_answers (snd (post_check_duplicate_email e body st)) = quiz_answers st"
  "quiz_answers (snd (get_stats e st)) = quiz_answers st"
  "quiz_answers (snd (get_leaderboard e q st)) = quiz_answers st"
  "quiz_answers (snd (get_scores_export e st)) = quiz_answers st"
  "quiz_answers (snd (get_quiz_export e q st)) = quiz_answers st"
  "quiz_answers (snd (get_leaderboard_with_quiz e q st)) = quiz_answers st"
  "quiz_answers (snd (get_quiz_formatted e q st)) = quiz_answers st"
  "quiz_answers (snd (get_quiz_csv e st)) = quiz_answers st"
  "quiz_answers (snd (get_quiz_xlsx e st)) = quiz_answers st"
  "quiz_answers (snd (get_export_combined e q st)) = quiz_answers st"
  by (simp_all add: post_check_duplicate_def post_check_duplicate_email_def get_stats_def
        get_leaderboard_def get_scores_export_def get_quiz_export_def get_leaderboard_with_quiz_def
        get_quiz_formatted_def get_quiz_csv_def get_quiz_xlsx_def get_export_combined_def
        Let_def called_def split: option.splits sum.splits)

lemma initializeDatabase_quiz:
  "quiz_answers (snd (initializeDatabase ie st)) = quiz_answers st"
  by (simp add: initializeDatabase_def failed_def called_def Let_def split: option.splits)

lemma named_submissions:
  assumes "\<forall>qa\<in>set (quiz_answers st). q_participant_name qa \<noteq> []"
  shows "\<forall>qa\<in>set (quiz_answers (snd (route secret e req op st))). q_participant_name qa \<noteq> []"
proof -
  have h: "\<forall>qa\<in>set (quiz_answers (snd (handler e op st))). q_participant_name qa \<noteq> []"
    using assms
    by (cases op) (simp_all add: post_scores_quiz reads_keep_quiz post_quiz_answers_names)
  show ?thesis
    using assms h
    by (simp add: route_def protected_def split: auth_result.splits)
qed




end
